theory Spec2Isabelle
  imports Main
begin

section \<open>Python values shared by the three service modules\<close>

text \<open>
  Exceptions are values.  \<open>HTTPException\<close> carries the status code and the detail
  string of the source; \<open>InvalidTokenError\<close> is the base class of every error of the
  token library; \<open>KeyError\<close> is a missing dictionary key; \<open>DatabaseError\<close> is an
  error raised by the database driver; \<open>RuntimeError\<close> stands for any other
  exception of a collaborator (request handler, logging handler).
\<close>

datatype exn =
    HTTPException nat string
  | InvalidTokenError string
  | KeyError string
  | DatabaseError string
  | RuntimeError string

text \<open>Truthiness of an \<open>Optional[str]\<close>: \<open>None\<close> and the empty string are false.\<close>

definition truthy :: "string option \<Rightarrow> bool" where
  "truthy v = (case v of None \<Rightarrow> False | Some s \<Rightarrow> s \<noteq> [])"

text \<open>\<open>result.fetchone()\<close>: the first row of a result set, \<open>None\<close> when it is empty.\<close>

definition fetchone :: "'a list \<Rightarrow> 'a option" where
  "fetchone rows = (case rows of [] \<Rightarrow> None | r # _ \<Rightarrow> Some r)"

section \<open>The record store\<close>

text \<open>
  Modelled from the spec: the module \<open>database\<close> (\<open>get_database\<close>) and the schema of the
  tables \<open>tenants\<close>, \<open>stores\<close> and \<open>store_api_keys\<close> are not part of the source; the
  specification calls them the CredentialStore, "an external keyed-record store".
  Each table is the list of its rows, in the order in which a query returns them.
  Only the columns that the modelled queries read or write are kept.  Instants are
  seconds since the epoch.
\<close>

record tenant_row =
  t_tenant_id :: string
  t_company_name :: string
  t_max_stores :: int
  t_is_active :: bool

record store_row =
  s_tenant_id :: string
  s_store_id :: string
  s_store_name :: string
  s_is_active :: bool

record api_key_row =
  k_key_id :: string
  k_tenant_id :: string
  k_store_id :: string
  k_key_hash :: string
  k_is_active :: bool
  k_last_used_at :: "int option"

text \<open>
  The statements that the two key-verification paths have executed on
  \<open>store_api_keys\<close>, oldest first: the trace by which lookups and timestamp updates
  are counted.  The argument is the digest the statement is parameterised with.  The
  other queries are modelled by what they read from or write to the tables.
\<close>

datatype statement =
    SelectKey string
  | UpdateLastUsed string
  | Commit

text \<open>
  Modelled from the spec: \<open>timestamp_write_fault\<close> is the outcome of the
  usage-timestamp \<open>UPDATE\<close>, the one store operation whose failure the specification
  speaks about: when it is \<open>Some msg\<close> the driver raises on that statement.  Every
  other statement is answered.  \<open>app_tenant_id\<close> is the session variable
  \<open>app.tenant_id\<close> that row-level security reads.
\<close>

record database =
  tenants :: "tenant_row list"
  stores :: "store_row list"
  store_api_keys :: "api_key_row list"
  statements :: "statement list"
  timestamp_write_fault :: "string option"
  app_tenant_id :: "string option"

definition executed :: "statement \<Rightarrow> database \<Rightarrow> database" where
  "executed st db = db\<lparr>statements := statements db @ [st]\<rparr>"

text \<open>
  \<open>UPDATE store_api_keys SET last_used_at = NOW() WHERE key_hash = :key_hash\<close> followed
  by \<open>db.commit()\<close>.  Every row with that digest is stamped, active or not.
\<close>

definition touch_key :: "string \<Rightarrow> int \<Rightarrow> api_key_row \<Rightarrow> api_key_row" where
  "touch_key key_hash now k =
     (if k_key_hash k = key_hash then k\<lparr>k_last_used_at := Some now\<rparr> else k)"

definition update_last_used_at :: "string \<Rightarrow> int \<Rightarrow> database \<Rightarrow> exn + database" where
  "update_last_used_at key_hash now db =
     (case timestamp_write_fault db of
        Some msg \<Rightarrow> Inl (DatabaseError msg)
      | None \<Rightarrow>
          Inr (executed Commit (executed (UpdateLastUsed key_hash)
                 (db\<lparr>store_api_keys := map (touch_key key_hash now) (store_api_keys db)\<rparr>))))"

section \<open>API-key verification (auth.py, \<open>AuthService.verify_api_key\<close>)\<close>

text \<open>
  The three-way join of the query:
  \<open>FROM store_api_keys k JOIN tenants t ON k.tenant_id = t.tenant_id
    JOIN stores s ON k.tenant_id = s.tenant_id AND k.store_id = s.store_id
    WHERE k.key_hash = :key_hash AND k.is_active = TRUE\<close>.
\<close>

definition key_tenant_store_join ::
  "database \<Rightarrow> string \<Rightarrow> (api_key_row \<times> tenant_row \<times> store_row) list" where
  "key_tenant_store_join db key_hash =
     [(k, t, s).
        k \<leftarrow> store_api_keys db,
        t \<leftarrow> tenants db,
        k_tenant_id k = t_tenant_id t,
        s \<leftarrow> stores db,
        k_tenant_id k = s_tenant_id s \<and> k_store_id k = s_store_id s,
        k_key_hash k = key_hash \<and> k_is_active k]"

record key_context =
  kc_tenant_id :: string
  kc_store_id :: string
  kc_key_id :: string
  kc_company_name :: string
  kc_store_name :: string
  kc_auth_type :: string

text \<open>
  \<open>sha256\<close> is \<open>hashlib.sha256(s.encode()).hexdigest()\<close>, taken as a parameter.
  \<open>now\<close> is the instant of the call.  The result pairs what the coroutine raises
  or returns with the store it leaves behind.
\<close>

definition verify_api_key ::
  "(string \<Rightarrow> string) \<Rightarrow> int \<Rightarrow> database \<Rightarrow> string \<Rightarrow> (exn + key_context) \<times> database" where
  "verify_api_key sha256 now db api_key =
     (if api_key = [] then (Inl (HTTPException 401 ''API key required''), db)
      else
        let key_hash = sha256 api_key;
            db1 = executed (SelectKey key_hash) db
        in case fetchone (key_tenant_store_join db1 key_hash) of
             None \<Rightarrow> (Inl (HTTPException 401 ''Invalid API key''), db1)
           | Some (k, t, s) \<Rightarrow>
               if \<not> t_is_active t then
                 (Inl (HTTPException 401 ''Tenant account is inactive''), db1)
               else if \<not> s_is_active s then
                 (Inl (HTTPException 401 ''Store is inactive''), db1)
               else
                 (case update_last_used_at key_hash now db1 of
                    Inl e \<Rightarrow> (Inl e, db1)
                  | Inr db2 \<Rightarrow>
                      (Inr \<lparr>kc_tenant_id = k_tenant_id k,
                            kc_store_id = k_store_id k,
                            kc_key_id = k_key_id k,
                            kc_company_name = t_company_name t,
                            kc_store_name = s_store_name s,
                            kc_auth_type = ''api_key''\<rparr>, db2)))"

section \<open>The request pipeline's key lookup (tenant_middleware.py)\<close>

text \<open>
  \<open>TenantContextMiddleware._lookup_api_key\<close>.  Its query joins the key with its
  tenant only:
  \<open>FROM store_api_keys k JOIN tenants t ON k.tenant_id = t.tenant_id
    WHERE k.key_hash = :key_hash AND k.is_active = TRUE AND t.is_active = TRUE\<close>.
\<close>

definition key_tenant_join :: "database \<Rightarrow> string \<Rightarrow> (api_key_row \<times> tenant_row) list" where
  "key_tenant_join db key_hash =
     [(k, t).
        k \<leftarrow> store_api_keys db,
        t \<leftarrow> tenants db,
        k_tenant_id k = t_tenant_id t,
        k_key_hash k = key_hash \<and> k_is_active k \<and> t_is_active t]"

definition lookup_api_key ::
  "(string \<Rightarrow> string) \<Rightarrow> int \<Rightarrow> database \<Rightarrow> string
     \<Rightarrow> (exn + string option \<times> string option) \<times> database" where
  "lookup_api_key sha256 now db api_key =
     (let key_hash = sha256 api_key;
          db1 = executed (SelectKey key_hash) db
      in case fetchone (key_tenant_join db1 key_hash) of
           Some (k, t) \<Rightarrow>
             (case update_last_used_at key_hash now db1 of
                Inl e \<Rightarrow> (Inl e, db1)
              | Inr db2 \<Rightarrow> (Inr (Some (k_tenant_id k), Some (k_store_id k)), db2))
         | None \<Rightarrow> (Inr (None, None), db1))"


section \<open>Rendering integers (\<open>str\<close>, f-strings)\<close>

definition digit_char :: "nat \<Rightarrow> char" where
  "digit_char d = ''0123456789'' ! d"

fun str_nat :: "nat \<Rightarrow> string" where
  "str_nat n = (if n < 10 then [digit_char n] else str_nat (n div 10) @ [digit_char (n mod 10)])"

declare str_nat.simps [simp del]

definition str_int :: "int \<Rightarrow> string" where
  "str_int i = (if i < 0 then CHR ''-'' # str_nat (nat (- i)) else str_nat (nat i))"

section \<open>Session tokens (auth.py)\<close>

record auth_service =
  jwt_secret :: string
  jwt_algorithm :: string
  access_token_expire_minutes :: int

text \<open>\<open>AuthService.__init__\<close> with the default algorithm, as \<open>init_auth_service\<close> calls it.\<close>

definition init_auth_service :: "string \<Rightarrow> auth_service" where
  "init_auth_service secret =
     \<lparr>jwt_secret = secret, jwt_algorithm = ''HS256'', access_token_expire_minutes = 60\<rparr>"

text \<open>
  The \<open>user_data\<close> dictionary: a field is \<open>None\<close> when the key is absent.
\<close>

record user_data =
  ud_user_id :: "string option"
  ud_tenant_id :: "string option"
  ud_user_type :: "string option"
  ud_permissions :: "string list option"

text \<open>
  The claim set.  \<open>p_tenant_id\<close> and \<open>p_exp\<close> are optional because
  \<open>verify_access_token\<close> reads them from a payload that anyone holding the secret
  may have signed; \<open>p_exp\<close> and \<open>p_iat\<close> are the integer timestamps that the token
  library writes for a \<open>datetime\<close>.
\<close>

record payload =
  p_sub :: string
  p_tenant_id :: "string option"
  p_user_type :: string
  p_permissions :: "string list"
  p_exp :: "int option"
  p_iat :: int
  p_iss :: string

text \<open>
  The token library (PyJWT) is not part of the repository.  A token is modelled by
  what its signature binds: the payload, the key and the algorithm it was signed
  with; any other string is \<open>Malformed\<close>.  \<open>jwt_decode\<close> follows the library's
  defaults: the algorithm must be among the allowed ones, the signature must verify
  under the given key, and an \<open>exp\<close> claim that is not in the future raises
  \<open>ExpiredSignatureError\<close>.  All three are subclasses of \<open>InvalidTokenError\<close>.
\<close>

datatype token = Signed payload string string | Malformed string

definition jwt_encode :: "payload \<Rightarrow> string \<Rightarrow> string \<Rightarrow> token" where
  "jwt_encode p key alg = Signed p key alg"

definition jwt_decode :: "int \<Rightarrow> token \<Rightarrow> string \<Rightarrow> string \<Rightarrow> exn + payload" where
  "jwt_decode now tok key alg =
     (case tok of
        Malformed _ \<Rightarrow> Inl (InvalidTokenError ''Not enough segments'')
      | Signed p k a \<Rightarrow>
          if a \<noteq> alg then Inl (InvalidTokenError ''The specified alg value is not allowed'')
          else if k \<noteq> key then Inl (InvalidTokenError ''Signature verification failed'')
          else (case p_exp p of
                  None \<Rightarrow> Inr p
                | Some e \<Rightarrow>
                    if e \<le> now then Inl (InvalidTokenError ''Signature has expired'')
                    else Inr p))"

text \<open>\<open>AuthService.create_access_token\<close>; \<open>now\<close> is \<open>datetime.utcnow()\<close>.\<close>

definition create_access_token :: "auth_service \<Rightarrow> int \<Rightarrow> user_data \<Rightarrow> exn + token" where
  "create_access_token svc now ud =
     (let expire = now + 60 * access_token_expire_minutes svc in
      case ud_user_id ud of
        None \<Rightarrow> Inl (KeyError ''user_id'')
      | Some uid \<Rightarrow>
          (case ud_tenant_id ud of
             None \<Rightarrow> Inl (KeyError ''tenant_id'')
           | Some tid \<Rightarrow>
               Inr (jwt_encode
                      \<lparr>p_sub = uid,
                       p_tenant_id = Some tid,
                       p_user_type = (case ud_user_type ud of None \<Rightarrow> ''client'' | Some ut \<Rightarrow> ut),
                       p_permissions = (case ud_permissions ud of None \<Rightarrow> [] | Some ps \<Rightarrow> ps),
                       p_exp = Some expire,
                       p_iat = now,
                       p_iss = ''storepulse-auth''\<rparr>
                      (jwt_secret svc) (jwt_algorithm svc))))"

text \<open>
  \<open>AuthService._verify_tenant_active\<close>:
  \<open>SELECT is_active FROM tenants WHERE tenant_id = :tenant_id\<close>, then
  \<open>tenant and tenant.is_active\<close>.
\<close>

definition verify_tenant_active :: "database \<Rightarrow> string \<Rightarrow> bool" where
  "verify_tenant_active db tenant_id =
     (case fetchone [t \<leftarrow> tenants db. t_tenant_id t = tenant_id] of
        None \<Rightarrow> False
      | Some t \<Rightarrow> t_is_active t)"

text \<open>
  The body of the \<open>try\<close> block of \<open>verify_access_token\<close>.  \<open>now\<close> is
  \<open>datetime.utcnow()\<close>, a naive datetime in UTC.
  \<open>datetime.fromtimestamp(payload["exp"])\<close> is a naive datetime in the server's local
  zone: the expiry shifted by \<open>utc_offset\<close>, the local zone's offset from UTC in
  seconds.  The comparison of the source is between these two wall-clock values.
\<close>

definition verify_access_token_try ::
  "auth_service \<Rightarrow> int \<Rightarrow> int \<Rightarrow> database \<Rightarrow> token \<Rightarrow> exn + payload" where
  "verify_access_token_try svc now utc_offset db tok =
     (case jwt_decode now tok (jwt_secret svc) (jwt_algorithm svc) of
        Inl e \<Rightarrow> Inl e
      | Inr p \<Rightarrow>
          (case p_exp p of
             None \<Rightarrow> Inl (KeyError ''exp'')
           | Some e \<Rightarrow>
               if now > e + utc_offset then Inl (HTTPException 401 ''Token expired'')
               else
                 (case p_tenant_id p of
                    None \<Rightarrow> Inr p
                  | Some tenant_id \<Rightarrow>
                      if tenant_id \<noteq> [] \<and> \<not> verify_tenant_active db tenant_id
                      then Inl (HTTPException 401 ''Tenant inactive or not found'')
                      else Inr p)))"

text \<open>
  The two handlers of the \<open>try\<close> block, in the order of the source:
  \<open>except jwt.InvalidTokenError\<close>, then \<open>except Exception\<close>.  \<open>HTTPException\<close> is a
  subclass of \<open>Exception\<close>, so the second handler also receives the two
  \<open>HTTPException\<close>s that the body raises.
\<close>

definition verify_access_token ::
  "auth_service \<Rightarrow> int \<Rightarrow> int \<Rightarrow> database \<Rightarrow> token \<Rightarrow> exn + payload" where
  "verify_access_token svc now utc_offset db tok =
     (case verify_access_token_try svc now utc_offset db tok of
        Inr p \<Rightarrow> Inr p
      | Inl (InvalidTokenError msg) \<Rightarrow> Inl (HTTPException 401 (''Invalid token: '' @ msg))
      | Inl _ \<Rightarrow> Inl (HTTPException 401 ''Token verification failed''))"

section \<open>The key cache and the request pipeline (tenant_middleware.py)\<close>

record cache_entry =
  ce_tenant_id :: "string option"
  ce_store_id :: "string option"
  ce_expires :: int

record middleware =
  api_key_cache :: "string \<rightharpoonup> cache_entry"
  cache_ttl :: int

text \<open>\<open>TenantContextMiddleware.__init__\<close>.\<close>

definition init_middleware :: middleware where
  "init_middleware = \<lparr>api_key_cache = Map.empty, cache_ttl = 300\<rparr>"

record request =
  r_path :: string
  r_method :: string
  r_authorization :: "string option"
  r_state_tenant_id :: "string option"
  r_state_store_id :: "string option"

text \<open>\<open>auth_header.replace("Bearer ", "")\<close>: every occurrence is removed, left to right.\<close>

fun remove_bearer :: "string \<Rightarrow> string" where
  "remove_bearer [] = []"
| "remove_bearer (c # cs) =
     (if take 7 (c # cs) = ''Bearer '' then remove_bearer (drop 6 cs)
      else c # remove_bearer cs)"

text \<open>
  \<open>TenantContextMiddleware._extract_tenant_context\<close>.  The coroutine reads the clock
  twice: \<open>now\<close> is \<open>datetime.utcnow()\<close> at the cache test, \<open>now_store\<close> is
  \<open>datetime.utcnow()\<close> when the new entry is stamped, after the awaited lookup;
  \<open>db_now\<close> is the store's \<open>NOW()\<close> during that lookup.
\<close>

definition extract_tenant_context ::
  "(string \<Rightarrow> string) \<Rightarrow> int \<Rightarrow> int \<Rightarrow> int \<Rightarrow> middleware \<Rightarrow> database \<Rightarrow> request
     \<Rightarrow> (exn + string option \<times> string option) \<times> middleware \<times> database" where
  "extract_tenant_context sha256 now db_now now_store mw db req =
     (let auth_header = (case r_authorization req of None \<Rightarrow> [] | Some h \<Rightarrow> h) in
      if take 7 auth_header \<noteq> ''Bearer '' then (Inr (None, None), mw, db)
      else
        let api_key = remove_bearer auth_header in
        if api_key = [] then (Inr (None, None), mw, db)
        else
          let cache_key = sha256 api_key;
              cached_result = api_key_cache mw cache_key
          in if (case cached_result of None \<Rightarrow> False | Some ce \<Rightarrow> ce_expires ce > now)
             then (case cached_result of
                     None \<Rightarrow> (Inr (None, None), mw, db)
                   | Some ce \<Rightarrow> (Inr (ce_tenant_id ce, ce_store_id ce), mw, db))
             else
               (case lookup_api_key sha256 db_now db api_key of
                  (Inl e, db') \<Rightarrow> (Inl e, mw, db')
                | (Inr (tenant_id, store_id), db') \<Rightarrow>
                    (Inr (tenant_id, store_id),
                     (if truthy tenant_id
                      then mw\<lparr>api_key_cache := (api_key_cache mw)(cache_key \<mapsto>
                                 \<lparr>ce_tenant_id = tenant_id,
                                  ce_store_id = store_id,
                                  ce_expires = now_store + cache_ttl mw\<rparr>)\<rparr>
                      else mw),
                     db')))"

text \<open>The number of key lookups (\<open>SELECT\<close>s on \<open>store_api_keys\<close>) a store has answered.\<close>

definition is_lookup :: "statement \<Rightarrow> bool" where
  "is_lookup st = (case st of SelectKey _ \<Rightarrow> True | _ \<Rightarrow> False)"

definition lookups :: "database \<Rightarrow> nat" where
  "lookups db = length (filter is_lookup (statements db))"


text \<open>
  Two requests through \<open>_extract_tenant_context\<close>, the second on the cache and the
  store that the first leaves behind: the two results and the final store.  The first
  request tests the cache at \<open>t1\<close>, is looked up at \<open>d1\<close> and stamps its entry at
  \<open>s1\<close>; the second does so at \<open>t2\<close>, \<open>d2\<close> and \<open>s2\<close>.
\<close>

definition resolve_twice ::
  "(string \<Rightarrow> string) \<Rightarrow> int \<Rightarrow> int \<Rightarrow> int \<Rightarrow> int \<Rightarrow> int \<Rightarrow> int
     \<Rightarrow> middleware \<Rightarrow> database \<Rightarrow> request
     \<Rightarrow> (exn + string option \<times> string option) \<times> (exn + string option \<times> string option)
         \<times> database" where
  "resolve_twice sha256 t1 d1 s1 t2 d2 s2 mw db req =
     (case extract_tenant_context sha256 t1 d1 s1 mw db req of
        (r1, mw1, db1) \<Rightarrow>
          (case extract_tenant_context sha256 t2 d2 s2 mw1 db1 req of
             (r2, mw2, db2) \<Rightarrow> (r1, r2, db2)))"

text \<open>
  A resolution that fails, as \<open>__call__\<close> reads it: the coroutine raises, or the
  tenant id it returns is \<open>None\<close> or empty.
\<close>

definition resolution_failed :: "exn + string option \<times> string option \<Rightarrow> bool" where
  "resolution_failed r =
     (case r of Inl _ \<Rightarrow> True | Inr (tenant_id, store_id) \<Rightarrow> \<not> truthy tenant_id)"

section \<open>Store limits (tenant_middleware.py, \<open>TenantLimitsService\<close>)\<close>

text \<open>\<open>SELECT COUNT(*) FROM stores WHERE tenant_id = :tenant_id AND is_active = TRUE\<close>.\<close>

definition active_store_count :: "database \<Rightarrow> string \<Rightarrow> int" where
  "active_store_count db tenant_id =
     int (length [s \<leftarrow> stores db. s_tenant_id s = tenant_id \<and> s_is_active s])"

text \<open>
  \<open>SELECT max_stores ... FROM tenants WHERE tenant_id = :tenant_id AND is_active = TRUE\<close>,
  then \<open>fetchone()\<close>.
\<close>

definition active_tenant :: "database \<Rightarrow> string \<Rightarrow> tenant_row option" where
  "active_tenant db tenant_id =
     fetchone [t \<leftarrow> tenants db. t_tenant_id t = tenant_id \<and> t_is_active t]"

definition validate_store_limit :: "database \<Rightarrow> string \<Rightarrow> exn + unit" where
  "validate_store_limit db tenant_id =
     (case active_tenant db tenant_id of
        None \<Rightarrow> Inl (HTTPException 404 (''Tenant '' @ tenant_id @ '' not found or inactive''))
      | Some tenant \<Rightarrow>
          let store_count = active_store_count db tenant_id in
          if store_count \<ge> t_max_stores tenant
          then Inl (HTTPException 429
                 (''Store limit exceeded: '' @ str_int store_count @ ''/''
                    @ str_int (t_max_stores tenant)))
          else Inr ())"

section \<open>The request pipeline (tenant_middleware.py, \<open>TenantContextMiddleware.__call__\<close>)\<close>

record response =
  status_code :: nat
  content :: string

datatype log_level = INFO | WARNING | ERROR

datatype log_value = LStr "string option" | LTime int

record log_entry =
  le_level :: log_level
  le_message :: string
  le_extra :: "(string \<times> log_value) list"

text \<open>
  What lies outside the middleware, taken as parameters: the digest, the instants at
  which the request reads the clock (\<open>e_now\<close> at the cache test, \<open>e_db_now\<close> the
  store's \<open>NOW()\<close>, \<open>e_now_store\<close> when the cache entry is stamped,
  \<open>e_now_limits\<close> in the quota task, \<open>e_now_log\<close> in the activity record),
  the next handler of the chain (it raises or returns a response), the
  logging configuration (\<open>e_logger level message\<close> is \<open>Some e\<close> when a handler or
  filter attached to the logger raises \<open>e\<close>), the outcome of importing
  \<open>.services.tenant_service\<close>, and the outcome of \<open>check_cost_limit\<close>, whose
  arithmetic is floating point.
\<close>

record pipeline_env =
  e_sha256 :: "string \<Rightarrow> string"
  e_now :: int
  e_db_now :: int
  e_now_store :: int
  e_now_limits :: int
  e_now_log :: int
  e_call_next :: "request \<Rightarrow> exn + response"
  e_logger :: "log_level \<Rightarrow> string \<Rightarrow> exn option"
  e_import_limits :: "exn option"
  e_check_cost_limit :: "string \<Rightarrow> exn option"

record app_state =
  st_middleware :: middleware
  st_database :: database
  st_log :: "log_entry list"

text \<open>A call of \<open>logger.info\<close>, \<open>logger.warning\<close> or \<open>logger.error\<close>.\<close>

definition emit ::
  "pipeline_env \<Rightarrow> log_level \<Rightarrow> string \<Rightarrow> (string \<times> log_value) list \<Rightarrow> log_entry list
     \<Rightarrow> exn + log_entry list" where
  "emit env lvl msg extra log =
     (case e_logger env lvl msg of
        Some e \<Rightarrow> Inl e
      | None \<Rightarrow> Inr (log @ [\<lparr>le_level = lvl, le_message = msg, le_extra = extra\<rparr>]))"

text \<open>The text of an exception in an f-string.\<close>

definition exn_message :: "exn \<Rightarrow> string" where
  "exn_message e =
     (case e of
        HTTPException code detail \<Rightarrow> str_int (int code) @ '': '' @ detail
      | InvalidTokenError m \<Rightarrow> m
      | KeyError m \<Rightarrow> m
      | DatabaseError m \<Rightarrow> m
      | RuntimeError m \<Rightarrow> m)"

text \<open>\<open>_set_database_context\<close>: \<open>SET app.tenant_id = '<tenant_id>'\<close>.\<close>

definition set_database_context :: "database \<Rightarrow> string \<Rightarrow> database" where
  "set_database_context db tenant_id = db\<lparr>app_tenant_id := Some tenant_id\<rparr>"

text \<open>
  \<open>_validate_tenant_limits\<close>: the whole body is inside \<open>try\<close>, and the handler
  \<open>except Exception\<close> logs a warning.  The result is \<open>Some e\<close> only when that warning
  itself raises \<open>e\<close>.
\<close>

definition limits_failed ::
  "pipeline_env \<Rightarrow> string \<Rightarrow> exn \<Rightarrow> log_entry list \<Rightarrow> exn option \<times> log_entry list" where
  "limits_failed env tenant_id e log =
     (case emit env WARNING
             (''Tenant limits validation failed for '' @ tenant_id @ '': '' @ exn_message e)
             [] log of
        Inl e' \<Rightarrow> (Some e', log)
      | Inr log' \<Rightarrow> (None, log'))"

definition validate_tenant_limits ::
  "pipeline_env \<Rightarrow> database \<Rightarrow> string \<Rightarrow> log_entry list \<Rightarrow> exn option \<times> log_entry list" where
  "validate_tenant_limits env db tenant_id log =
     (case e_import_limits env of
        Some e \<Rightarrow> limits_failed env tenant_id e log
      | None \<Rightarrow>
          (case validate_store_limit db tenant_id of
             Inl e \<Rightarrow> limits_failed env tenant_id e log
           | Inr _ \<Rightarrow>
               let current_hour = (e_now_limits env div 3600) mod 24 in
               if current_hour mod 4 = 0 then
                 (case e_check_cost_limit env tenant_id of
                    Some e \<Rightarrow> limits_failed env tenant_id e log
                  | None \<Rightarrow> (None, log))
               else (None, log)))"

text \<open>\<open>_log_tenant_activity\<close>: one call of \<open>logger.info\<close>.\<close>

definition log_tenant_activity ::
  "pipeline_env \<Rightarrow> string \<Rightarrow> string option \<Rightarrow> request \<Rightarrow> log_entry list
     \<Rightarrow> exn + log_entry list" where
  "log_tenant_activity env tenant_id store_id req log =
     emit env INFO ''Tenant activity''
       [(''tenant_id'', LStr (Some tenant_id)),
        (''store_id'', LStr store_id),
        (''method'', LStr (Some (r_method req))),
        (''path'', LStr (Some (r_path req))),
        (''timestamp'', LTime (e_now_log env))]
       log"

text \<open>
  The two handlers of the \<open>try\<close> block of \<open>__call__\<close>: \<open>except HTTPException: raise\<close>,
  then \<open>except Exception\<close>, which logs the error and answers 500.
\<close>

definition on_exception :: "pipeline_env \<Rightarrow> exn \<Rightarrow> app_state \<Rightarrow> (exn + response) \<times> app_state" where
  "on_exception env e st =
     (case e of
        HTTPException code detail \<Rightarrow> (Inl e, st)
      | _ \<Rightarrow>
          (case emit env ERROR (''Tenant middleware error: '' @ exn_message e) [] (st_log st) of
             Inl e' \<Rightarrow> (Inl e', st)
           | Inr log' \<Rightarrow>
               (Inr \<lparr>status_code = 500, content = ''Internal server error''\<rparr>,
                st\<lparr>st_log := log'\<rparr>)))"

text \<open>
  \<open>__call__\<close>.  \<open>asyncio.create_task(self._validate_tenant_limits(tenant_id))\<close> hands
  the coroutine to the event loop and drops the task handle; the model runs the
  coroutine at that point and drops what it returns or raises.
\<close>

definition call :: "pipeline_env \<Rightarrow> app_state \<Rightarrow> request \<Rightarrow> (exn + response) \<times> app_state" where
  "call env st req =
     (if r_path req \<in> set [''/health'', ''/docs'', ''/openapi.json'']
      then (e_call_next env req, st)
      else
        (case extract_tenant_context (e_sha256 env) (e_now env) (e_db_now env)
                (e_now_store env) (st_middleware st) (st_database st) req of
           (Inl e, mw, db) \<Rightarrow> on_exception env e (st\<lparr>st_middleware := mw, st_database := db\<rparr>)
         | (Inr (tenant_id_opt, store_id), mw, db) \<Rightarrow>
             let st1 = st\<lparr>st_middleware := mw, st_database := db\<rparr> in
             (case tenant_id_opt of
                None \<Rightarrow>
                  (Inr \<lparr>status_code = 401, content = ''Invalid or missing API key''\<rparr>, st1)
              | Some tenant_id \<Rightarrow>
                  if tenant_id = [] then
                    (Inr \<lparr>status_code = 401, content = ''Invalid or missing API key''\<rparr>, st1)
                  else
                    let req1 = req\<lparr>r_state_tenant_id := Some tenant_id,
                                   r_state_store_id := store_id\<rparr>;
                        st2 = st1\<lparr>st_database := set_database_context db tenant_id\<rparr>;
                        st3 = st2\<lparr>st_log :=
                                snd (validate_tenant_limits env (st_database st2) tenant_id
                                       (st_log st2))\<rparr>
                    in (case e_call_next env req1 of
                          Inl e \<Rightarrow> on_exception env e st3
                        | Inr resp \<Rightarrow>
                            (case log_tenant_activity env tenant_id store_id req1 (st_log st3) of
                               Inl e \<Rightarrow> on_exception env e st3
                             | Inr log' \<Rightarrow> (Inr resp, st3\<lparr>st_log := log'\<rparr>))))))"

section \<open>Store and key management (tenant_management.py)\<close>

record store_create =
  sc_store_id :: string
  sc_store_name :: string

text \<open>\<open>get_store\<close>.\<close>

definition get_store :: "database \<Rightarrow> string \<Rightarrow> string \<Rightarrow> exn + store_row" where
  "get_store db tenant_id store_id =
     (case fetchone [s \<leftarrow> stores db. s_tenant_id s = tenant_id \<and> s_store_id s = store_id] of
        None \<Rightarrow> Inl (HTTPException 404
                  (''Store '' @ store_id @ '' not found for tenant '' @ tenant_id))
      | Some s \<Rightarrow> Inr s)"

text \<open>
  \<open>create_store\<close>.  Modelled from the spec: the \<open>INSERT\<close> names no \<open>is_active\<close>
  column; the schema's default (not in the source) is taken to be \<open>TRUE\<close>, a new store
  being "counted against \<open>max_stores\<close>".
\<close>

definition create_store :: "database \<Rightarrow> string \<Rightarrow> store_create \<Rightarrow> (exn + store_row) \<times> database" where
  "create_store db tenant_id store =
     (case active_tenant db tenant_id of
        None \<Rightarrow>
          (Inl (HTTPException 404 (''Tenant '' @ tenant_id @ '' not found or inactive'')), db)
      | Some tenant_data \<Rightarrow>
          let store_count = active_store_count db tenant_id in
          if store_count \<ge> t_max_stores tenant_data then
            (Inl (HTTPException 409
               (''Store limit reached: '' @ str_int store_count @ ''/''
                  @ str_int (t_max_stores tenant_data))), db)
          else
            (case fetchone [s \<leftarrow> stores db.
                              s_tenant_id s = tenant_id \<and> s_store_id s = sc_store_id store] of
               Some _ \<Rightarrow>
                 (Inl (HTTPException 409
                    (''Store '' @ sc_store_id store @ '' already exists for tenant '' @ tenant_id)),
                  db)
             | None \<Rightarrow>
                 let db' = db\<lparr>stores := stores db @
                              [\<lparr>s_tenant_id = tenant_id,
                                s_store_id = sc_store_id store,
                                s_store_name = sc_store_name store,
                                s_is_active = True\<rparr>]\<rparr>
                 in (get_store db' tenant_id (sc_store_id store), db')))"

record api_key_response =
  ar_key_id :: string
  ar_tenant_id :: string
  ar_store_id :: string
  ar_api_key :: string
  ar_created_at :: int
  ar_is_active :: bool

text \<open>
  \<open>UPDATE store_api_keys SET is_active = FALSE
    WHERE tenant_id = :tenant_id AND store_id = :store_id\<close>.
\<close>

definition deactivate_key :: "string \<Rightarrow> string \<Rightarrow> api_key_row \<Rightarrow> api_key_row" where
  "deactivate_key tenant_id store_id k =
     (if k_tenant_id k = tenant_id \<and> k_store_id k = store_id
      then k\<lparr>k_is_active := False\<rparr> else k)"

text \<open>
  \<open>generate_api_key\<close>.  \<open>random\<close> is the value of \<open>secrets.token_urlsafe(32)\<close>.
  Modelled from the spec: the \<open>INSERT\<close> names neither \<open>is_active\<close> nor
  \<open>last_used_at\<close>; the schema's defaults (not in the source) are taken to be \<open>TRUE\<close>
  and \<open>NULL\<close>, and the table to carry no uniqueness constraint, several keys of one
  store being kept side by side.
\<close>

definition generate_api_key ::
  "(string \<Rightarrow> string) \<Rightarrow> string \<Rightarrow> int \<Rightarrow> database \<Rightarrow> string \<Rightarrow> string
     \<Rightarrow> (exn + api_key_response) \<times> database" where
  "generate_api_key sha256 random now db tenant_id store_id =
     (case fetchone [s \<leftarrow> stores db.
                       s_tenant_id s = tenant_id \<and> s_store_id s = store_id \<and> s_is_active s] of
        None \<Rightarrow>
          (Inl (HTTPException 404
             (''Store '' @ store_id @ '' not found for tenant '' @ tenant_id)), db)
      | Some _ \<Rightarrow>
          let api_key = ''store_'' @ tenant_id @ ''_'' @ store_id @ ''_'' @ random;
              key_id = ''store_'' @ tenant_id @ ''_'' @ store_id;
              key_hash = sha256 api_key
          in (Inr \<lparr>ar_key_id = key_id,
                   ar_tenant_id = tenant_id,
                   ar_store_id = store_id,
                   ar_api_key = api_key,
                   ar_created_at = now,
                   ar_is_active = True\<rparr>,
              db\<lparr>store_api_keys :=
                    map (deactivate_key tenant_id store_id) (store_api_keys db) @
                    [\<lparr>k_key_id = key_id,
                      k_tenant_id = tenant_id,
                      k_store_id = store_id,
                      k_key_hash = key_hash,
                      k_is_active = True,
                      k_last_used_at = None\<rparr>]\<rparr>))"

text \<open>The keys of one (tenant, store) pair, and the active ones among them.\<close>

definition keys_of :: "database \<Rightarrow> string \<Rightarrow> string \<Rightarrow> api_key_row list" where
  "keys_of db tenant_id store_id =
     [k \<leftarrow> store_api_keys db. k_tenant_id k = tenant_id \<and> k_store_id k = store_id]"

definition active_keys_of :: "database \<Rightarrow> string \<Rightarrow> string \<Rightarrow> api_key_row list" where
  "active_keys_of db tenant_id store_id = filter k_is_active (keys_of db tenant_id store_id)"


section \<open>Concrete stores, tokens and requests for the evaluations\<close>

text \<open>A stand-in for the digest: the evaluations hold for any function in its place.\<close>

definition demo_sha256 :: "string \<Rightarrow> string" where
  "demo_sha256 s = ''sha256:'' @ s"

definition demo_key :: string where
  "demo_key = ''store_t1_s1_abc123''"

definition demo_key_row :: api_key_row where
  "demo_key_row =
     \<lparr>k_key_id = ''store_t1_s1'', k_tenant_id = ''t1'', k_store_id = ''s1'',
      k_key_hash = demo_sha256 demo_key, k_is_active = True, k_last_used_at = None\<rparr>"

definition demo_tenant :: tenant_row where
  "demo_tenant =
     \<lparr>t_tenant_id = ''t1'', t_company_name = ''Acme'', t_max_stores = 2, t_is_active = True\<rparr>"

definition demo_store :: store_row where
  "demo_store =
     \<lparr>s_tenant_id = ''t1'', s_store_id = ''s1'', s_store_name = ''Central'', s_is_active = True\<rparr>"

text \<open>Tenant \<open>t1\<close>, its store \<open>s1\<close> and the key of that store, all active.\<close>

definition db_live :: database where
  "db_live =
     \<lparr>tenants = [demo_tenant], stores = [demo_store], store_api_keys = [demo_key_row],
      statements = [], timestamp_write_fault = None, app_tenant_id = None\<rparr>"

text \<open>The same store after \<open>s1\<close>, respectively \<open>t1\<close>, has been deactivated.\<close>

definition db_store_off :: database where
  "db_store_off = db_live\<lparr>stores := [demo_store\<lparr>s_is_active := False\<rparr>]\<rparr>"

definition db_tenant_off :: database where
  "db_tenant_off = db_live\<lparr>tenants := [demo_tenant\<lparr>t_is_active := False\<rparr>]\<rparr>"

text \<open>The live store while it refuses the usage-timestamp write.\<close>

definition db_write_fault :: database where
  "db_write_fault = db_live\<lparr>timestamp_write_fault := Some ''connection lost''\<rparr>"

text \<open>Tenant \<open>t1\<close> with one active store and the deactivated store \<open>s2\<close>.\<close>

definition db_retired_store :: database where
  "db_retired_store =
     db_live\<lparr>stores := [demo_store,
        \<lparr>s_tenant_id = ''t1'', s_store_id = ''s2'', s_store_name = ''North'',
         s_is_active = False\<rparr>]\<rparr>"

text \<open>Tenant \<open>t1\<close> at its limit: \<open>max_stores = 2\<close> and two active stores.\<close>

definition db_full :: database where
  "db_full =
     db_live\<lparr>stores := [demo_store,
        \<lparr>s_tenant_id = ''t1'', s_store_id = ''s2'', s_store_name = ''North'',
         s_is_active = True\<rparr>]\<rparr>"

definition new_store :: store_create where
  "new_store = \<lparr>sc_store_id = ''s3'', sc_store_name = ''South''\<rparr>"

definition retired_store :: store_create where
  "retired_store = \<lparr>sc_store_id = ''s2'', sc_store_name = ''North''\<rparr>"

text \<open>What \<open>verify_api_key\<close> returns for \<open>demo_key\<close> on the live store.\<close>

definition demo_context :: key_context where
  "demo_context =
     \<lparr>kc_tenant_id = ''t1'', kc_store_id = ''s1'', kc_key_id = ''store_t1_s1'',
      kc_company_name = ''Acme'', kc_store_name = ''Central'', kc_auth_type = ''api_key''\<rparr>"

definition demo_service :: auth_service where
  "demo_service = init_auth_service ''secret''"

definition demo_user :: user_data where
  "demo_user =
     \<lparr>ud_user_id = Some ''u1'', ud_tenant_id = Some ''t1'', ud_user_type = Some ''admin'',
      ud_permissions = Some [''read:metrics'']\<rparr>"

text \<open>The claim set and the token that \<open>create_access_token\<close> issues for \<open>demo_user\<close> at instant 0.\<close>

definition demo_payload :: payload where
  "demo_payload =
     \<lparr>p_sub = ''u1'', p_tenant_id = Some ''t1'', p_user_type = ''admin'',
      p_permissions = [''read:metrics''], p_exp = Some 3600, p_iat = 0,
      p_iss = ''storepulse-auth''\<rparr>"

definition demo_token :: token where
  "demo_token = Signed demo_payload ''secret'' ''HS256''"

definition demo_request :: request where
  "demo_request =
     \<lparr>r_path = ''/v1/metrics'', r_method = ''POST'',
      r_authorization = Some (''Bearer '' @ demo_key),
      r_state_tenant_id = None, r_state_store_id = None\<rparr>"

definition unknown_request :: request where
  "unknown_request = demo_request\<lparr>r_authorization := Some ''Bearer nokey''\<rparr>"

definition demo_handler :: "request \<Rightarrow> exn + response" where
  "demo_handler req = Inr \<lparr>status_code = 200, content = ''ok''\<rparr>"

definition quiet_logger :: "log_level \<Rightarrow> string \<Rightarrow> exn option" where
  "quiet_logger lvl msg = None"

text \<open>A logging configuration whose handler for \<open>INFO\<close> records raises.\<close>

definition info_fails_logger :: "log_level \<Rightarrow> string \<Rightarrow> exn option" where
  "info_fails_logger lvl msg = (if lvl = INFO then Some (RuntimeError ''log sink closed'') else None)"

definition demo_env :: pipeline_env where
  "demo_env =
     \<lparr>e_sha256 = demo_sha256, e_now = 100, e_db_now = 100, e_now_store = 101,
      e_now_limits = 101, e_now_log = 102, e_call_next = demo_handler,
      e_logger = quiet_logger, e_import_limits = None,
      e_check_cost_limit = (\<lambda>tenant_id. None)\<rparr>"

definition demo_env_log_fails :: pipeline_env where
  "demo_env_log_fails = demo_env\<lparr>e_logger := info_fails_logger\<rparr>"

definition demo_state :: app_state where
  "demo_state = \<lparr>st_middleware = init_middleware, st_database = db_live, st_log = []\<rparr>"


section \<open>Basic facts\<close>

lemmas live_defs =
  demo_sha256_def demo_key_def demo_key_row_def demo_tenant_def demo_store_def db_live_def

lemma fetchone_simps [simp]: "fetchone [] = None" "fetchone (r # rs) = Some r"
  by (simp_all add: fetchone_def)

lemma executed_fields [simp]:
  "statements (executed st db) = statements db @ [st]"
  "store_api_keys (executed st db) = store_api_keys db"
  "tenants (executed st db) = tenants db"
  "stores (executed st db) = stores db"
  "timestamp_write_fault (executed st db) = timestamp_write_fault db"
  "app_tenant_id (executed st db) = app_tenant_id db"
  by (simp_all add: executed_def)

lemma join_executed [simp]:
  "key_tenant_store_join (executed st db) h = key_tenant_store_join db h"
  "key_tenant_join (executed st db) h = key_tenant_join db h"
  by (simp_all add: key_tenant_store_join_def key_tenant_join_def cong: if_cong)

text \<open>The usage-timestamp write fails exactly when the store refuses it.\<close>

lemma update_last_used_at_cases:
  "update_last_used_at h now db = Inl e \<longleftrightarrow>
     (\<exists>msg. timestamp_write_fault db = Some msg \<and> e = DatabaseError msg)"
  "update_last_used_at h now db = Inr db' \<longleftrightarrow>
     (timestamp_write_fault db = None \<and>
      db' = executed Commit (executed (UpdateLastUsed h)
              (db\<lparr>store_api_keys := map (touch_key h now) (store_api_keys db)\<rparr>)))"
  by (auto simp: update_last_used_at_def split: option.splits)

section \<open>Liveness of key, store and tenant\<close>

text \<open>Every row of the three-way join is a key with its own tenant and its own store.\<close>

lemma join_rows:
  "(k, t, s) \<in> set (key_tenant_store_join db h) \<Longrightarrow>
     k \<in> set (store_api_keys db) \<and> t \<in> set (tenants db) \<and> s \<in> set (stores db) \<and>
     k_key_hash k = h \<and> k_is_active k \<and> k_tenant_id k = t_tenant_id t \<and>
     k_tenant_id k = s_tenant_id s \<and> k_store_id k = s_store_id s"
  by (auto simp: key_tenant_store_join_def split: if_splits)

text \<open>
  \<open>AuthService.verify_api_key\<close> enforces all three: it succeeds only on a row whose
  key, tenant and store are active, and names the inactive party otherwise.
\<close>

lemma verify_api_key_success:
  assumes "fst (verify_api_key sha256 now db api_key) = Inr ctx"
  shows "\<exists>k t s. fetchone (key_tenant_store_join db (sha256 api_key)) = Some (k, t, s)
     \<and> t_is_active t \<and> s_is_active s"
  using assms
  by (auto simp: verify_api_key_def Let_def update_last_used_at_def
      split: if_splits option.splits prod.splits sum.splits)

lemma verify_api_key_tenant_inactive:
  "api_key \<noteq> [] \<Longrightarrow> fetchone (key_tenant_store_join db (sha256 api_key)) = Some (k, t, s) \<Longrightarrow>
   \<not> t_is_active t \<Longrightarrow>
   fst (verify_api_key sha256 now db api_key) =
     Inl (HTTPException 401 ''Tenant account is inactive'')"
  by (simp add: verify_api_key_def Let_def)

lemma verify_api_key_store_inactive:
  "api_key \<noteq> [] \<Longrightarrow> fetchone (key_tenant_store_join db (sha256 api_key)) = Some (k, t, s) \<Longrightarrow>
   t_is_active t \<Longrightarrow> \<not> s_is_active s \<Longrightarrow>
   fst (verify_api_key sha256 now db api_key) = Inl (HTTPException 401 ''Store is inactive'')"
  by (simp add: verify_api_key_def Let_def)

text \<open>
  The pipeline's \<open>_lookup_api_key\<close> never reads the \<open>stores\<close> table: its answer is the
  same whatever that table holds.
\<close>

lemma lookup_api_key_ignores_stores:
  "fst (lookup_api_key sha256 now (db\<lparr>stores := ss\<rparr>) api_key) =
   fst (lookup_api_key sha256 now db api_key)"
  by (simp add: lookup_api_key_def key_tenant_join_def update_last_used_at_def executed_def
      Let_def split: option.splits prod.splits)

text \<open>
  C1.  Claim: in both verification paths, success requires key, store and tenant to
  be active together, an inactive store failing with StoreInactive.  On the store
  where tenant \<open>t1\<close> and the key are active and store \<open>s1\<close> is deactivated, the
  pipeline's \<open>_lookup_api_key\<close> resolves the key to \<open>(t1, s1)\<close>, while
  \<open>AuthService.verify_api_key\<close> rejects the same key with "Store is inactive".
\<close>

theorem lookup_api_key_accepts_inactive_store:
  "fst (lookup_api_key demo_sha256 100 db_store_off demo_key) = Inr (Some ''t1'', Some ''s1'')
   \<and> fst (verify_api_key demo_sha256 100 db_store_off demo_key) =
       Inl (HTTPException 401 ''Store is inactive'')"
  by (simp add: lookup_api_key_def verify_api_key_def key_tenant_join_def
      key_tenant_store_join_def update_last_used_at_def Let_def live_defs db_store_off_def)

section \<open>The usage timestamp\<close>

text \<open>
  C9, as stated, fails: the claim has the usage-timestamp write best-effort, a failed
  write not failing the verification.  On the live store the key verifies; on the same
  store refusing the write, both verification paths raise the driver's error.
\<close>

theorem timestamp_write_failure_fails_verification:
  "fst (verify_api_key demo_sha256 100 db_live demo_key) = Inr demo_context
   \<and> fst (verify_api_key demo_sha256 100 db_write_fault demo_key) =
       Inl (DatabaseError ''connection lost'')
   \<and> fst (lookup_api_key demo_sha256 100 db_write_fault demo_key) =
       Inl (DatabaseError ''connection lost'')"
  by (simp add: lookup_api_key_def verify_api_key_def key_tenant_join_def
      key_tenant_store_join_def update_last_used_at_def Let_def live_defs db_write_fault_def
      demo_context_def)

text \<open>
  C9, amended.  The usage-timestamp write is part of the verification: whenever
  \<open>verify_api_key\<close> or \<open>_lookup_api_key\<close> succeeds, the store did not refuse the write
  (so a refused write fails the verification), and the call executed exactly one
  lookup, one timestamp \<open>UPDATE\<close> and one commit, stamping the rows with that digest.
\<close>

theorem timestamp_update_synchronous:
  "(fst (verify_api_key sha256 now db api_key) = Inr ctx \<longrightarrow>
      timestamp_write_fault db = None \<and>
      statements (snd (verify_api_key sha256 now db api_key)) =
        statements db @ [SelectKey (sha256 api_key), UpdateLastUsed (sha256 api_key), Commit] \<and>
      store_api_keys (snd (verify_api_key sha256 now db api_key)) =
        map (touch_key (sha256 api_key) now) (store_api_keys db))
   \<and> (fst (lookup_api_key sha256 now db api_key) = Inr (Some tenant_id, store_id) \<longrightarrow>
      timestamp_write_fault db = None \<and>
      statements (snd (lookup_api_key sha256 now db api_key)) =
        statements db @ [SelectKey (sha256 api_key), UpdateLastUsed (sha256 api_key), Commit] \<and>
      store_api_keys (snd (lookup_api_key sha256 now db api_key)) =
        map (touch_key (sha256 api_key) now) (store_api_keys db))"
  by (auto simp: verify_api_key_def lookup_api_key_def Let_def update_last_used_at_def
      split: if_splits option.splits prod.splits sum.splits)

theorem timestamp_update_synchronous_witness:
  "fst (verify_api_key demo_sha256 100 db_live demo_key) = Inr demo_context
   \<and> fst (lookup_api_key demo_sha256 100 db_live demo_key) = Inr (Some ''t1'', Some ''s1'')
   \<and> timestamp_write_fault db_live = None
   \<and> statements (snd (verify_api_key demo_sha256 100 db_live demo_key)) =
       statements db_live @
         [SelectKey (demo_sha256 demo_key), UpdateLastUsed (demo_sha256 demo_key), Commit]
   \<and> statements (snd (lookup_api_key demo_sha256 100 db_live demo_key)) =
       statements db_live @
         [SelectKey (demo_sha256 demo_key), UpdateLastUsed (demo_sha256 demo_key), Commit]"
proof -
  have v: "fst (verify_api_key demo_sha256 100 db_live demo_key) = Inr demo_context"
    by (simp add: verify_api_key_def key_tenant_store_join_def update_last_used_at_def
        Let_def live_defs demo_context_def)
  have l: "fst (lookup_api_key demo_sha256 100 db_live demo_key) = Inr (Some ''t1'', Some ''s1'')"
    by (simp add: lookup_api_key_def key_tenant_join_def update_last_used_at_def
        Let_def live_defs)
  from v l
    timestamp_update_synchronous
      [of demo_sha256 100 db_live demo_key demo_context "''t1''" "Some ''s1''"]
  show ?thesis by blast
qed

text \<open>
  Whatever \<open>verify_api_key\<close> raises (missing key, no matching active key, inactive
  tenant, inactive store, refused write), and whenever \<open>_lookup_api_key\<close> raises or
  returns \<open>(None, None)\<close>, the stored key records are as before.
\<close>

lemma verify_api_key_failure_keeps_keys:
  "fst (verify_api_key sha256 now db api_key) = Inl e \<Longrightarrow>
   store_api_keys (snd (verify_api_key sha256 now db api_key)) = store_api_keys db"
  by (auto simp: verify_api_key_def Let_def update_last_used_at_def
      split: if_splits option.splits prod.splits sum.splits)

lemma lookup_api_key_failure_keeps_keys:
  "fst (lookup_api_key sha256 now db api_key) = Inl e \<or>
   fst (lookup_api_key sha256 now db api_key) = Inr (None, None) \<Longrightarrow>
   store_api_keys (snd (lookup_api_key sha256 now db api_key)) = store_api_keys db"
  by (auto simp: lookup_api_key_def Let_def update_last_used_at_def
      split: if_splits option.splits prod.splits sum.splits)

text \<open>
  C10.  Claim: a verification that fails, the inactive store among the listed cases,
  leaves the stored key records unchanged, the usage timestamp being written only
  after all liveness checks.  On the store where tenant \<open>t1\<close> and the key are active
  and store \<open>s1\<close> is deactivated, \<open>verify_api_key\<close> raises "Store is inactive" and
  leaves the key record as it was, while the pipeline's \<open>_lookup_api_key\<close>, which
  does not check the store, stamps the key's \<open>last_used_at\<close>.
\<close>

theorem lookup_api_key_stamps_key_of_inactive_store:
  "stores db_store_off = [demo_store\<lparr>s_is_active := False\<rparr>]
   \<and> store_api_keys db_store_off = [demo_key_row]
   \<and> k_last_used_at demo_key_row = None
   \<and> store_api_keys (snd (verify_api_key demo_sha256 100 db_store_off demo_key)) =
       [demo_key_row]
   \<and> store_api_keys (snd (lookup_api_key demo_sha256 100 db_store_off demo_key)) =
       [demo_key_row\<lparr>k_last_used_at := Some 100\<rparr>]"
  by (simp add: lookup_api_key_def verify_api_key_def key_tenant_join_def
      key_tenant_store_join_def update_last_used_at_def touch_key_def Let_def live_defs
      db_store_off_def)

section \<open>Session tokens\<close>

lemmas token_defs =
  demo_service_def init_auth_service_def demo_user_def demo_payload_def demo_token_def

text \<open>
  Whatever \<open>verify_access_token\<close> raises is one of two errors: the generic
  "Token verification failed" or an "Invalid token: ..." of the token library.
  The details "Token expired" and "Tenant inactive or not found", raised inside the
  \<open>try\<close> block, never leave it.
\<close>

lemma verify_access_token_errors:
  assumes "verify_access_token svc now utc_offset db tok = Inl e"
  shows "e = HTTPException 401 ''Token verification failed'' \<or>
         (\<exists>msg. e = HTTPException 401 (''Invalid token: '' @ msg))"
  using assms
  by (auto simp: verify_access_token_def split: sum.splits exn.splits)

lemma verify_access_token_never_specific:
  "verify_access_token svc now utc_offset db tok \<noteq> Inl (HTTPException 401 ''Token expired'')"
  "verify_access_token svc now utc_offset db tok \<noteq>
     Inl (HTTPException 401 ''Tenant inactive or not found'')"
  by (auto dest!: verify_access_token_errors)

text \<open>A token of an inactive or unknown tenant is rejected, with the generic error.\<close>

lemma verify_access_token_rejects_inactive_tenant:
  assumes "jwt_decode now tok (jwt_secret svc) (jwt_algorithm svc) = Inr p"
    and "p_tenant_id p = Some tenant_id" and "tenant_id \<noteq> []"
    and "\<not> verify_tenant_active db tenant_id"
  shows "verify_access_token svc now utc_offset db tok =
     Inl (HTTPException 401 ''Token verification failed'')"
  using assms
  by (auto simp: verify_access_token_def verify_access_token_try_def split: option.splits)

text \<open>An expired token is rejected by the token library, through the first handler.\<close>

lemma verify_access_token_rejects_expired:
  assumes "tok = Signed p (jwt_secret svc) (jwt_algorithm svc)"
    and "p_exp p = Some e" and "e \<le> now"
  shows "verify_access_token svc now utc_offset db tok =
     Inl (HTTPException 401 ''Invalid token: Signature has expired'')"
  using assms
  by (simp add: verify_access_token_def verify_access_token_try_def jwt_decode_def)

text \<open>
  Issue-then-verify returns the issued claim set on a server whose local zone is not
  behind UTC.
\<close>

lemma issue_then_verify:
  assumes "create_access_token svc t0 ud = Inr tok"
    and "now < t0 + 60 * access_token_expire_minutes svc"
    and "0 \<le> utc_offset"
    and "ud_tenant_id ud = Some tenant_id" and "verify_tenant_active db tenant_id"
  shows "\<exists>p. tok = jwt_encode p (jwt_secret svc) (jwt_algorithm svc) \<and>
           verify_access_token svc now utc_offset db tok = Inr p"
  using assms
  by (auto simp: create_access_token_def verify_access_token_def verify_access_token_try_def
      jwt_decode_def jwt_encode_def Let_def split: option.splits)

text \<open>
  C2.  Claim: a token whose tenant no longer resolves to an active tenant fails with a
  TenantInactive authentication error.  The token of \<open>demo_user\<close> passes signature
  and expiry at instant 100; its tenant \<open>t1\<close> is deactivated; the liveness lookup
  fails, and what \<open>verify_access_token\<close> raises is the generic
  "Token verification failed", not "Tenant inactive or not found".
\<close>

theorem inactive_tenant_token_generic_failure:
  "jwt_decode 100 demo_token (jwt_secret demo_service) (jwt_algorithm demo_service) =
     Inr demo_payload
   \<and> \<not> verify_tenant_active db_tenant_off ''t1''
   \<and> verify_access_token demo_service 100 0 db_tenant_off demo_token =
       Inl (HTTPException 401 ''Token verification failed'')"
  by (simp add: verify_access_token_def verify_access_token_try_def jwt_decode_def
      verify_tenant_active_def fetchone_def token_defs db_tenant_off_def db_live_def
      demo_tenant_def)

text \<open>
  C3.  Claim: verifying a freshly issued token before its expiry, the tenant being
  active, returns the issued claim set.  The token issued for \<open>demo_user\<close> at instant
  0 verifies at instant 0 on a server in UTC; on a server whose local zone is four
  hours behind UTC (offset \<open>-14400\<close>) the same verification fails.
\<close>

theorem fresh_token_rejected_behind_utc:
  "create_access_token demo_service 0 demo_user = Inr demo_token
   \<and> verify_tenant_active db_live ''t1''
   \<and> verify_access_token demo_service 0 0 db_live demo_token = Inr demo_payload
   \<and> verify_access_token demo_service 0 (- 14400) db_live demo_token =
       Inl (HTTPException 401 ''Token verification failed'')"
  by (simp add: create_access_token_def jwt_encode_def verify_access_token_def
      verify_access_token_try_def jwt_decode_def verify_tenant_active_def fetchone_def
      token_defs db_live_def demo_tenant_def)

text \<open>
  C4.  Claim: a well-formed, correctly signed token verified after its expiry fails
  with TokenExpired, distinct from the InvalidToken error.  The token issued at
  instant 0 with the 60-minute lifetime, verified at instant 3601, fails through the
  invalid-token handler.
\<close>

theorem expired_token_invalid_token_error:
  "create_access_token demo_service 0 demo_user = Inr demo_token
   \<and> verify_access_token demo_service 3601 0 db_live demo_token =
       Inl (HTTPException 401 ''Invalid token: Signature has expired'')"
  by (simp add: create_access_token_def jwt_encode_def verify_access_token_def
      verify_access_token_try_def jwt_decode_def token_defs)

section \<open>The key cache\<close>

lemma lookups_executed [simp]:
  "lookups (executed st db) = (if is_lookup st then Suc (lookups db) else lookups db)"
  by (simp add: lookups_def)

lemma lookups_update [simp]: "lookups (db\<lparr>store_api_keys := ks\<rparr>) = lookups db"
  by (simp add: lookups_def)

text \<open>Every call of \<open>_lookup_api_key\<close> is one lookup, whatever it finds.\<close>

lemma lookups_lookup_api_key:
  "lookups (snd (lookup_api_key sha256 now db api_key)) = Suc (lookups db)"
  by (simp add: lookup_api_key_def Let_def update_last_used_at_def is_lookup_def
      split: option.splits prod.splits)

lemma lookup_api_key_found:
  assumes "fetchone (key_tenant_join db (sha256 api_key)) = Some (k, t)"
    and "timestamp_write_fault db = None"
  shows "fst (lookup_api_key sha256 now db api_key) =
     Inr (Some (k_tenant_id k), Some (k_store_id k))"
  using assms by (simp add: lookup_api_key_def Let_def update_last_used_at_def)

text \<open>A live cache entry answers the request: cache and store stay as they are.\<close>

lemma extract_hit:
  assumes "r_authorization req = Some h" "take 7 h = ''Bearer ''" "remove_bearer h \<noteq> []"
    and "api_key_cache mw (sha256 (remove_bearer h)) = Some ce" "now < ce_expires ce"
  shows "extract_tenant_context sha256 now db_now now_store mw db req =
     (Inr (ce_tenant_id ce, ce_store_id ce), mw, db)"
  using assms by (simp add: extract_tenant_context_def Let_def)

text \<open>Without a live entry the request costs one lookup.\<close>

lemma extract_miss:
  assumes "r_authorization req = Some h" "take 7 h = ''Bearer ''" "remove_bearer h \<noteq> []"
    and "\<forall>ce. api_key_cache mw (sha256 (remove_bearer h)) = Some ce \<longrightarrow> ce_expires ce \<le> now"
  shows "lookups (snd (snd (extract_tenant_context sha256 now db_now now_store mw db req))) =
     Suc (lookups db)"
proof -
  have "\<not> (case api_key_cache mw (sha256 (remove_bearer h)) of
             None \<Rightarrow> False | Some ce \<Rightarrow> ce_expires ce > now)"
    using assms(4) by (auto split: option.splits)
  then show ?thesis
    using assms(1-3) lookups_lookup_api_key[of sha256 db_now db "remove_bearer h"]
    by (auto simp: extract_tenant_context_def Let_def split: prod.splits sum.splits)
qed

text \<open>
  A successful lookup is cached, and the entry expires \<open>cache_ttl\<close> after the instant
  at which it is stamped.
\<close>

lemma extract_miss_found:
  assumes "r_authorization req = Some h" "take 7 h = ''Bearer ''" "remove_bearer h \<noteq> []"
    and "\<forall>ce. api_key_cache mw (sha256 (remove_bearer h)) = Some ce \<longrightarrow> ce_expires ce \<le> now"
    and "fetchone (key_tenant_join db (sha256 (remove_bearer h))) = Some (k, t)"
    and "k_tenant_id k \<noteq> []" and "timestamp_write_fault db = None"
  shows "extract_tenant_context sha256 now db_now now_store mw db req =
     (Inr (Some (k_tenant_id k), Some (k_store_id k)),
      mw\<lparr>api_key_cache := (api_key_cache mw)(sha256 (remove_bearer h) \<mapsto>
            \<lparr>ce_tenant_id = Some (k_tenant_id k), ce_store_id = Some (k_store_id k),
             ce_expires = now_store + cache_ttl mw\<rparr>)\<rparr>,
      snd (lookup_api_key sha256 db_now db (remove_bearer h)))"
proof -
  have miss: "\<not> (case api_key_cache mw (sha256 (remove_bearer h)) of
                   None \<Rightarrow> False | Some ce \<Rightarrow> ce_expires ce > now)"
    using assms(4) by (auto split: option.splits)
  obtain db' where l: "lookup_api_key sha256 db_now db (remove_bearer h) =
      (Inr (Some (k_tenant_id k), Some (k_store_id k)), db')"
    using lookup_api_key_found[of db sha256 "remove_bearer h" k t db_now] assms(5,7)
    by (cases "lookup_api_key sha256 db_now db (remove_bearer h)") auto
  show ?thesis
    using assms(1-3,6) miss l
    by (simp add: extract_tenant_context_def Let_def truthy_def)
qed

text \<open>A resolution that fails leaves the cache as it was: failures are never cached.\<close>

lemma extract_failed_keeps_cache:
  assumes "resolution_failed (fst (extract_tenant_context sha256 now db_now now_store mw db req))"
  shows "fst (snd (extract_tenant_context sha256 now db_now now_store mw db req)) = mw"
  using assms
  by (auto simp: extract_tenant_context_def resolution_failed_def Let_def
      split: if_splits option.splits prod.splits sum.splits)

text \<open>
  C5, as stated, fails: the claim is about every API key.  A key that no row matches
  is never cached: resolved twice within three seconds, starting from the empty cache,
  it costs two lookups.
\<close>

theorem unknown_key_two_lookups:
  "lookups db_live = 0
   \<and> resolve_twice demo_sha256 100 100 101 102 102 103 init_middleware db_live
        unknown_request =
       (Inr (None, None), Inr (None, None),
        db_live\<lparr>statements :=
          [SelectKey (demo_sha256 ''nokey''), SelectKey (demo_sha256 ''nokey'')]\<rparr>)
   \<and> lookups (snd (snd (resolve_twice demo_sha256 100 100 101 102 102 103 init_middleware
                           db_live unknown_request))) = 2"
  by (simp add: resolve_twice_def extract_tenant_context_def lookup_api_key_def
      key_tenant_join_def Let_def truthy_def lookups_def is_lookup_def executed_def
      init_middleware_def unknown_request_def demo_request_def live_defs)

text \<open>
  C5, amended.  Take a request with a bearer key for which the cache holds no live
  entry when the first resolution tests it (at \<open>t1\<close>).
  If the key resolves (an active key of an active tenant with a non-empty tenant id,
  the store accepting the timestamp write), the first resolution stamps its entry at
  \<open>s1\<close>, after its lookup, and the entry lives until \<open>s1 + cache_ttl\<close>: a second
  resolution that tests the cache at \<open>t2 < s1 + cache_ttl\<close> is served from the cache,
  both return the key's tenant and store, and together they cost exactly one lookup,
  the second leaving the store untouched; a second resolution with
  \<open>t2 \<ge> s1 + cache_ttl\<close> costs a second lookup.
  If the first resolution fails, nothing is cached, and a second resolution at
  \<open>t2 \<ge> t1\<close> costs a second lookup.
\<close>

theorem cache_spares_lookup_within_ttl:
  assumes "r_authorization req = Some h" and "take 7 h = ''Bearer ''"
    and "remove_bearer h \<noteq> []"
    and "\<forall>ce. api_key_cache mw (sha256 (remove_bearer h)) = Some ce \<longrightarrow> ce_expires ce \<le> t1"
  shows "(fetchone (key_tenant_join db (sha256 (remove_bearer h))) = Some (k, t) \<and>
          k_tenant_id k \<noteq> [] \<and> timestamp_write_fault db = None \<longrightarrow>
            (t2 < s1 + cache_ttl mw \<longrightarrow>
               resolve_twice sha256 t1 d1 s1 t2 d2 s2 mw db req =
                 (Inr (Some (k_tenant_id k), Some (k_store_id k)),
                  Inr (Some (k_tenant_id k), Some (k_store_id k)),
                  snd (lookup_api_key sha256 d1 db (remove_bearer h))) \<and>
               lookups (snd (snd (resolve_twice sha256 t1 d1 s1 t2 d2 s2 mw db req))) =
                 lookups db + 1) \<and>
            (s1 + cache_ttl mw \<le> t2 \<longrightarrow>
               lookups (snd (snd (resolve_twice sha256 t1 d1 s1 t2 d2 s2 mw db req))) =
                 lookups db + 2))
       \<and> (resolution_failed (fst (extract_tenant_context sha256 t1 d1 s1 mw db req)) \<and>
          t1 \<le> t2 \<longrightarrow>
            lookups (snd (snd (resolve_twice sha256 t1 d1 s1 t2 d2 s2 mw db req))) =
              lookups db + 2)"
proof (intro conjI impI)
  let ?key = "remove_bearer h"
  let ?ce = "\<lparr>ce_tenant_id = Some (k_tenant_id k), ce_store_id = Some (k_store_id k),
             ce_expires = s1 + cache_ttl mw\<rparr>"
  let ?mw1 = "mw\<lparr>api_key_cache := (api_key_cache mw)(sha256 ?key \<mapsto> ?ce)\<rparr>"
  let ?db1 = "snd (lookup_api_key sha256 d1 db ?key)"
  have count1: "lookups ?db1 = Suc (lookups db)"
    by (rule lookups_lookup_api_key)
  {
    assume found: "fetchone (key_tenant_join db (sha256 ?key)) = Some (k, t) \<and>
          k_tenant_id k \<noteq> [] \<and> timestamp_write_fault db = None"
    have first: "extract_tenant_context sha256 t1 d1 s1 mw db req =
        (Inr (Some (k_tenant_id k), Some (k_store_id k)), ?mw1, ?db1)"
      using assms found by (intro extract_miss_found) simp_all
    {
      assume within: "t2 < s1 + cache_ttl mw"
      have entry: "api_key_cache ?mw1 (sha256 ?key) = Some ?ce" by simp
      have live: "t2 < ce_expires ?ce" using within by simp
      have "extract_tenant_context sha256 t2 d2 s2 ?mw1 ?db1 req =
          (Inr (ce_tenant_id ?ce, ce_store_id ?ce), ?mw1, ?db1)"
        using assms(1-3) entry live by (rule extract_hit)
      with first show r: "resolve_twice sha256 t1 d1 s1 t2 d2 s2 mw db req =
          (Inr (Some (k_tenant_id k), Some (k_store_id k)),
           Inr (Some (k_tenant_id k), Some (k_store_id k)), ?db1)"
        by (simp add: resolve_twice_def)
      show "lookups (snd (snd (resolve_twice sha256 t1 d1 s1 t2 d2 s2 mw db req))) =
          lookups db + 1"
        unfolding r using count1 by simp
    }
    {
      assume after: "s1 + cache_ttl mw \<le> t2"
      have stale: "\<forall>ce. api_key_cache ?mw1 (sha256 ?key) = Some ce \<longrightarrow> ce_expires ce \<le> t2"
        using after by auto
      have "lookups (snd (snd (extract_tenant_context sha256 t2 d2 s2 ?mw1 ?db1 req))) =
          Suc (lookups ?db1)"
        using assms(1-3) stale by (rule extract_miss)
      with first count1
      show "lookups (snd (snd (resolve_twice sha256 t1 d1 s1 t2 d2 s2 mw db req))) =
          lookups db + 2"
        by (auto simp: resolve_twice_def split: prod.splits)
    }
  }
  {
    assume failed: "resolution_failed (fst (extract_tenant_context sha256 t1 d1 s1 mw db req)) \<and>
          t1 \<le> t2"
    obtain r1 mw1 db1 where x: "extract_tenant_context sha256 t1 d1 s1 mw db req = (r1, mw1, db1)"
      by (cases "extract_tenant_context sha256 t1 d1 s1 mw db req") auto
    have mw1: "mw1 = mw"
      using extract_failed_keeps_cache[of sha256 t1 d1 s1 mw db req] failed x by simp
    have c1: "lookups db1 = Suc (lookups db)"
      using extract_miss[where req = req and h = h and mw = mw and ?sha256.0 = sha256
          and now = t1 and db_now = d1 and now_store = s1 and db = db] assms x
      by simp
    have stale: "\<forall>ce. api_key_cache mw (sha256 ?key) = Some ce \<longrightarrow> ce_expires ce \<le> t2"
      using assms(4) failed by force
    have "lookups (snd (snd (extract_tenant_context sha256 t2 d2 s2 mw db1 req))) =
        Suc (lookups db1)"
      using assms(1-3) stale by (rule extract_miss)
    with x mw1 c1
    show "lookups (snd (snd (resolve_twice sha256 t1 d1 s1 t2 d2 s2 mw db req))) =
        lookups db + 2"
      by (auto simp: resolve_twice_def split: prod.splits)
  }
qed

theorem cache_spares_lookup_within_ttl_witness:
  "cache_ttl init_middleware = 300
   \<and> lookups (snd (snd (resolve_twice demo_sha256 100 100 101 400 400 401 init_middleware
                           db_live demo_request))) = lookups db_live + 1
   \<and> lookups (snd (snd (resolve_twice demo_sha256 100 100 101 401 401 402 init_middleware
                           db_live demo_request))) = lookups db_live + 2
   \<and> resolution_failed (fst (extract_tenant_context demo_sha256 100 100 101 init_middleware
                                db_live unknown_request))
   \<and> lookups (snd (snd (resolve_twice demo_sha256 100 100 101 100 100 101 init_middleware
                           db_live unknown_request))) = lookups db_live + 2"
proof -
  have a: "r_authorization demo_request = Some (''Bearer '' @ demo_key)"
    by (simp add: demo_request_def)
  have b: "take 7 (''Bearer '' @ demo_key) = ''Bearer ''" by simp
  have c: "remove_bearer (''Bearer '' @ demo_key) \<noteq> []" by (simp add: demo_key_def)
  have d: "\<forall>ce. api_key_cache init_middleware
                  (demo_sha256 (remove_bearer (''Bearer '' @ demo_key))) = Some ce
             \<longrightarrow> ce_expires ce \<le> 100"
    by (simp add: init_middleware_def)
  have e: "fetchone (key_tenant_join db_live
                       (demo_sha256 (remove_bearer (''Bearer '' @ demo_key)))) =
             Some (demo_key_row, demo_tenant) \<and>
           k_tenant_id demo_key_row \<noteq> [] \<and> timestamp_write_fault db_live = None"
    by (simp add: key_tenant_join_def live_defs)
  have ttl: "cache_ttl init_middleware = 300" by (simp add: init_middleware_def)
  have lt: "400 < 101 + cache_ttl init_middleware" by (simp add: init_middleware_def)
  have ge: "101 + cache_ttl init_middleware \<le> 401" by (simp add: init_middleware_def)
  have a': "r_authorization unknown_request = Some ''Bearer nokey''"
    by (simp add: unknown_request_def)
  have b': "take 7 ''Bearer nokey'' = ''Bearer ''" by simp
  have c': "remove_bearer ''Bearer nokey'' \<noteq> []" by simp
  have d': "\<forall>ce. api_key_cache init_middleware
                  (demo_sha256 (remove_bearer ''Bearer nokey'')) = Some ce
             \<longrightarrow> ce_expires ce \<le> 100"
    by (simp add: init_middleware_def)
  have f': "resolution_failed (fst (extract_tenant_context demo_sha256 100 100 101
                                      init_middleware db_live unknown_request))"
    by (simp add: resolution_failed_def extract_tenant_context_def lookup_api_key_def
        key_tenant_join_def Let_def truthy_def init_middleware_def unknown_request_def
        demo_request_def live_defs)
  have le: "(100::int) \<le> 100" by simp
  from a b c d e lt ge ttl a' b' c' d' f' le
    cache_spares_lookup_within_ttl
      [where req = demo_request and h = "''Bearer '' @ demo_key" and mw = init_middleware
         and ?sha256.0 = demo_sha256 and db = db_live and k = demo_key_row and t = demo_tenant
         and ?t1.0 = 100 and ?d1.0 = 100 and ?s1.0 = 101
         and ?t2.0 = 400 and ?d2.0 = 400 and ?s2.0 = 401]
    cache_spares_lookup_within_ttl
      [where req = demo_request and h = "''Bearer '' @ demo_key" and mw = init_middleware
         and ?sha256.0 = demo_sha256 and db = db_live and k = demo_key_row and t = demo_tenant
         and ?t1.0 = 100 and ?d1.0 = 100 and ?s1.0 = 101
         and ?t2.0 = 401 and ?d2.0 = 401 and ?s2.0 = 402]
    cache_spares_lookup_within_ttl
      [where req = unknown_request and h = "''Bearer nokey''" and mw = init_middleware
         and ?sha256.0 = demo_sha256 and db = db_live and k = demo_key_row and t = demo_tenant
         and ?t1.0 = 100 and ?d1.0 = 100 and ?s1.0 = 101
         and ?t2.0 = 100 and ?d2.0 = 100 and ?s2.0 = 101]
  show ?thesis by blast
qed

section \<open>Key rotation\<close>

lemma keys_of_deactivated_same:
  "[k \<leftarrow> map (deactivate_key t s) ks. k_tenant_id k = t \<and> k_store_id k = s] =
   map (\<lambda>k. k\<lparr>k_is_active := False\<rparr>) [k \<leftarrow> ks. k_tenant_id k = t \<and> k_store_id k = s]"
  by (induction ks) (auto simp: deactivate_key_def)

lemma keys_of_deactivated_other:
  "(t', s') \<noteq> (t, s) \<Longrightarrow>
   [k \<leftarrow> map (deactivate_key t s) ks. k_tenant_id k = t' \<and> k_store_id k = s'] =
   [k \<leftarrow> ks. k_tenant_id k = t' \<and> k_store_id k = s']"
  by (induction ks) (auto simp: deactivate_key_def)

lemma filter_active_deactivated:
  "filter k_is_active (map (\<lambda>k. k\<lparr>k_is_active := False\<rparr>) ks) = []"
  by (induction ks) auto

lemma active_store_found:
  assumes "\<exists>s \<in> set (stores db).
             s_tenant_id s = tenant_id \<and> s_store_id s = store_id \<and> s_is_active s"
  shows "\<exists>s. fetchone [s \<leftarrow> stores db.
                 s_tenant_id s = tenant_id \<and> s_store_id s = store_id \<and> s_is_active s] = Some s"
proof -
  from assms have "[s \<leftarrow> stores db.
      s_tenant_id s = tenant_id \<and> s_store_id s = store_id \<and> s_is_active s] \<noteq> []"
    by (auto simp: filter_empty_conv)
  then show ?thesis by (auto simp: fetchone_def split: list.splits)
qed

text \<open>
  C7.  For a (tenant, store) pair whose store exists and is active, \<open>generate_api_key\<close>
  succeeds; afterwards the keys of that pair are the previous ones, each deactivated,
  followed by one new active key whose digest is that of the returned secret, so the
  pair has exactly one active key; the keys of every other pair are as before; and if
  no pair had more than one active key before, none has afterwards.
\<close>

theorem generate_api_key_rotates:
  assumes "\<exists>s \<in> set (stores db).
             s_tenant_id s = tenant_id \<and> s_store_id s = store_id \<and> s_is_active s"
  shows "\<exists>resp db'.
     generate_api_key sha256 random now db tenant_id store_id = (Inr resp, db') \<and>
     ar_key_id resp = ''store_'' @ tenant_id @ ''_'' @ store_id \<and>
     ar_api_key resp = ''store_'' @ tenant_id @ ''_'' @ store_id @ ''_'' @ random \<and>
     keys_of db' tenant_id store_id =
       map (\<lambda>k. k\<lparr>k_is_active := False\<rparr>) (keys_of db tenant_id store_id) @
       [\<lparr>k_key_id = ar_key_id resp, k_tenant_id = tenant_id, k_store_id = store_id,
         k_key_hash = sha256 (ar_api_key resp), k_is_active = True,
         k_last_used_at = None\<rparr>] \<and>
     active_keys_of db' tenant_id store_id =
       [\<lparr>k_key_id = ar_key_id resp, k_tenant_id = tenant_id, k_store_id = store_id,
         k_key_hash = sha256 (ar_api_key resp), k_is_active = True,
         k_last_used_at = None\<rparr>] \<and>
     (\<forall>t s. (t, s) \<noteq> (tenant_id, store_id) \<longrightarrow> keys_of db' t s = keys_of db t s) \<and>
     ((\<forall>t s. length (active_keys_of db t s) \<le> 1) \<longrightarrow>
      (\<forall>t s. length (active_keys_of db' t s) \<le> 1))"
proof -
  obtain s0 where f: "fetchone [s \<leftarrow> stores db.
      s_tenant_id s = tenant_id \<and> s_store_id s = store_id \<and> s_is_active s] = Some s0"
    using active_store_found[OF assms] by blast
  let ?api_key = "''store_'' @ tenant_id @ ''_'' @ store_id @ ''_'' @ random"
  let ?key_id = "''store_'' @ tenant_id @ ''_'' @ store_id"
  let ?resp = "\<lparr>ar_key_id = ?key_id, ar_tenant_id = tenant_id, ar_store_id = store_id,
                ar_api_key = ?api_key, ar_created_at = now, ar_is_active = True\<rparr>"
  let ?new = "\<lparr>k_key_id = ar_key_id ?resp, k_tenant_id = tenant_id, k_store_id = store_id,
               k_key_hash = sha256 (ar_api_key ?resp), k_is_active = True,
               k_last_used_at = None\<rparr>"
  let ?db' = "db\<lparr>store_api_keys :=
                 map (deactivate_key tenant_id store_id) (store_api_keys db) @ [?new]\<rparr>"
  have g: "generate_api_key sha256 random now db tenant_id store_id = (Inr ?resp, ?db')"
    using f by (simp add: generate_api_key_def Let_def)
  have secret: "ar_key_id ?resp = ?key_id" "ar_api_key ?resp = ?api_key" by simp_all
  have same: "keys_of ?db' tenant_id store_id =
       map (\<lambda>k. k\<lparr>k_is_active := False\<rparr>) (keys_of db tenant_id store_id) @ [?new]"
    by (simp add: keys_of_def keys_of_deactivated_same)
  have act: "active_keys_of ?db' tenant_id store_id = [?new]"
    unfolding active_keys_of_def same by (simp add: filter_active_deactivated)
  have other: "keys_of ?db' t s = keys_of db t s" if "(t, s) \<noteq> (tenant_id, store_id)" for t s
    using that by (auto simp: keys_of_def keys_of_deactivated_other)
  have inv: "\<forall>t s. length (active_keys_of ?db' t s) \<le> 1"
    if "\<forall>t s. length (active_keys_of db t s) \<le> 1"
  proof (intro allI)
    fix t s
    show "length (active_keys_of ?db' t s) \<le> 1"
    proof (cases "(t, s) = (tenant_id, store_id)")
      case True
      then show ?thesis using act by simp
    next
      case False
      then have "active_keys_of ?db' t s = active_keys_of db t s"
        using other[of t s] by (simp add: active_keys_of_def)
      then show ?thesis using that by simp
    qed
  qed
  from g secret same act other inv show ?thesis by blast
qed

theorem generate_api_key_rotates_witness:
  "(\<exists>s \<in> set (stores db_live).
      s_tenant_id s = ''t1'' \<and> s_store_id s = ''s1'' \<and> s_is_active s)
   \<and> (\<forall>t s. length (active_keys_of db_live t s) \<le> 1)
   \<and> (\<exists>resp db'.
        generate_api_key demo_sha256 ''xyz'' 200 db_live ''t1'' ''s1'' = (Inr resp, db') \<and>
        ar_api_key resp = ''store_t1_s1_xyz'' \<and>
        keys_of db' ''t1'' ''s1'' =
          [demo_key_row\<lparr>k_is_active := False\<rparr>,
           \<lparr>k_key_id = ''store_t1_s1'', k_tenant_id = ''t1'', k_store_id = ''s1'',
            k_key_hash = demo_sha256 ''store_t1_s1_xyz'', k_is_active = True,
            k_last_used_at = None\<rparr>] \<and>
        (\<forall>t s. length (active_keys_of db' t s) \<le> 1))"
proof -
  have a: "\<exists>s \<in> set (stores db_live).
      s_tenant_id s = ''t1'' \<and> s_store_id s = ''s1'' \<and> s_is_active s"
    by (simp add: live_defs)
  have i: "\<forall>t s. length (active_keys_of db_live t s) \<le> 1"
    by (simp add: active_keys_of_def keys_of_def live_defs)
  have k: "keys_of db_live ''t1'' ''s1'' = [demo_key_row]"
    by (simp add: keys_of_def live_defs)
  from generate_api_key_rotates[OF a, of demo_sha256 "''xyz''" 200]
  obtain resp db' where
    g: "generate_api_key demo_sha256 ''xyz'' 200 db_live ''t1'' ''s1'' = (Inr resp, db')"
    and id0: "ar_key_id resp = ''store_'' @ ''t1'' @ ''_'' @ ''s1''"
    and s: "ar_api_key resp = ''store_'' @ ''t1'' @ ''_'' @ ''s1'' @ ''_'' @ ''xyz''"
    and ks: "keys_of db' ''t1'' ''s1'' =
       map (\<lambda>k. k\<lparr>k_is_active := False\<rparr>) (keys_of db_live ''t1'' ''s1'') @
       [\<lparr>k_key_id = ar_key_id resp, k_tenant_id = ''t1'', k_store_id = ''s1'',
         k_key_hash = demo_sha256 (ar_api_key resp), k_is_active = True,
         k_last_used_at = None\<rparr>]"
    and inv: "(\<forall>t s. length (active_keys_of db_live t s) \<le> 1) \<longrightarrow>
      (\<forall>t s. length (active_keys_of db' t s) \<le> 1)"
    by blast
  have id: "ar_key_id resp = ''store_t1_s1''" using id0 by simp
  have s': "ar_api_key resp = ''store_t1_s1_xyz''" using s by simp
  have ks': "keys_of db' ''t1'' ''s1'' =
          [demo_key_row\<lparr>k_is_active := False\<rparr>,
           \<lparr>k_key_id = ''store_t1_s1'', k_tenant_id = ''t1'', k_store_id = ''s1'',
            k_key_hash = demo_sha256 ''store_t1_s1_xyz'', k_is_active = True,
            k_last_used_at = None\<rparr>]"
    using ks by (simp add: k id s')
  from inv i have "\<forall>t s. length (active_keys_of db' t s) \<le> 1" by blast
  with a i g s' ks' show ?thesis by blast
qed

section \<open>Store limits\<close>

lemma fetchone_fresh_append:
  assumes "\<forall>x \<in> set xs. \<not> P x" and "P r"
  shows "fetchone (filter P (xs @ [r])) = Some r"
proof -
  from assms(1) have "filter P xs = []" by (simp add: filter_empty_conv)
  with assms(2) show ?thesis by simp
qed

lemma fetchone_None_filter:
  "(\<forall>x \<in> set xs. \<not> P x) \<Longrightarrow> fetchone (filter P xs) = None"
  by (simp add: filter_empty_conv[THEN iffD2])

lemma str_int_2: "str_int 2 = ''2''"
  by code_simp

text \<open>
  C8, as stated, fails: the claim has every creation at \<open>max_stores - 1\<close> active
  stores succeed.  Tenant \<open>t1\<close> (\<open>max_stores = 2\<close>) has one active store and the
  deactivated store \<open>s2\<close>; creating \<open>s2\<close> again is refused as a duplicate.
\<close>

theorem create_store_duplicate_below_limit:
  "active_tenant db_retired_store ''t1'' = Some demo_tenant
   \<and> active_store_count db_retired_store ''t1'' = t_max_stores demo_tenant - 1
   \<and> create_store db_retired_store ''t1'' retired_store =
       (Inl (HTTPException 409 ''Store s2 already exists for tenant t1''), db_retired_store)"
  by (simp add: create_store_def active_tenant_def active_store_count_def Let_def
      db_retired_store_def retired_store_def live_defs)

text \<open>
  C8, amended.  For every active tenant: \<open>validate_store_limit\<close> fails, with status
  429 "Store limit exceeded", exactly when the number of active stores is at least
  \<open>max_stores\<close>, and returns normally otherwise; \<open>create_store\<close> at or above the limit
  fails with status 409 "Store limit reached" and leaves the store as it was; and
  \<open>create_store\<close> at \<open>max_stores - 1\<close> active stores, for a store id that the tenant
  does not have yet (active or not), succeeds, appends the new active store and
  brings the count to \<open>max_stores\<close>.
\<close>

theorem store_limit:
  assumes "active_tenant db tenant_id = Some tenant"
  shows "validate_store_limit db tenant_id =
           (if active_store_count db tenant_id \<ge> t_max_stores tenant
            then Inl (HTTPException 429
                   (''Store limit exceeded: '' @ str_int (active_store_count db tenant_id) @ ''/''
                      @ str_int (t_max_stores tenant)))
            else Inr ())
     \<and> (active_store_count db tenant_id \<ge> t_max_stores tenant \<longrightarrow>
          create_store db tenant_id store =
            (Inl (HTTPException 409
               (''Store limit reached: '' @ str_int (active_store_count db tenant_id) @ ''/''
                  @ str_int (t_max_stores tenant))), db))
     \<and> (active_store_count db tenant_id = t_max_stores tenant - 1 \<and>
        (\<forall>s \<in> set (stores db). \<not> (s_tenant_id s = tenant_id \<and> s_store_id s = sc_store_id store)) \<longrightarrow>
          create_store db tenant_id store =
            (Inr \<lparr>s_tenant_id = tenant_id, s_store_id = sc_store_id store,
                  s_store_name = sc_store_name store, s_is_active = True\<rparr>,
             db\<lparr>stores := stores db @
                  [\<lparr>s_tenant_id = tenant_id, s_store_id = sc_store_id store,
                    s_store_name = sc_store_name store, s_is_active = True\<rparr>]\<rparr>) \<and>
          active_store_count (snd (create_store db tenant_id store)) tenant_id = t_max_stores tenant)"
proof (intro conjI impI)
  show "validate_store_limit db tenant_id =
           (if active_store_count db tenant_id \<ge> t_max_stores tenant
            then Inl (HTTPException 429
                   (''Store limit exceeded: '' @ str_int (active_store_count db tenant_id) @ ''/''
                      @ str_int (t_max_stores tenant)))
            else Inr ())"
    using assms by (simp add: validate_store_limit_def Let_def)
next
  assume "active_store_count db tenant_id \<ge> t_max_stores tenant"
  then show "create_store db tenant_id store =
            (Inl (HTTPException 409
               (''Store limit reached: '' @ str_int (active_store_count db tenant_id) @ ''/''
                  @ str_int (t_max_stores tenant))), db)"
    using assms by (simp add: create_store_def Let_def)
next
  assume a: "active_store_count db tenant_id = t_max_stores tenant - 1 \<and>
        (\<forall>s \<in> set (stores db). \<not> (s_tenant_id s = tenant_id \<and> s_store_id s = sc_store_id store))"
  let ?row = "\<lparr>s_tenant_id = tenant_id, s_store_id = sc_store_id store,
                  s_store_name = sc_store_name store, s_is_active = True\<rparr>"
  let ?P = "\<lambda>s. s_tenant_id s = tenant_id \<and> s_store_id s = sc_store_id store"
  have none: "fetchone (filter ?P (stores db)) = None"
    using a by (intro fetchone_None_filter) simp
  have new: "fetchone (filter ?P (stores db @ [?row])) = Some ?row"
    using a by (intro fetchone_fresh_append) simp_all
  have below: "\<not> active_store_count db tenant_id \<ge> t_max_stores tenant" using a by simp
  show c: "create_store db tenant_id store = (Inr ?row, db\<lparr>stores := stores db @ [?row]\<rparr>)"
    using assms none new below by (simp add: create_store_def get_store_def Let_def)
  show "active_store_count (snd (create_store db tenant_id store)) tenant_id = t_max_stores tenant"
    using a unfolding c by (simp add: active_store_count_def)
qed

theorem store_limit_witness:
  "active_tenant db_live ''t1'' = Some demo_tenant
   \<and> active_tenant db_full ''t1'' = Some demo_tenant
   \<and> validate_store_limit db_live ''t1'' = Inr ()
   \<and> validate_store_limit db_full ''t1'' = Inl (HTTPException 429 ''Store limit exceeded: 2/2'')
   \<and> fst (create_store db_full ''t1'' new_store) = Inl (HTTPException 409 ''Store limit reached: 2/2'')
   \<and> fst (create_store db_live ''t1'' new_store) =
       Inr \<lparr>s_tenant_id = ''t1'', s_store_id = ''s3'', s_store_name = ''South'', s_is_active = True\<rparr>
   \<and> active_store_count (snd (create_store db_live ''t1'' new_store)) ''t1'' = 2"
proof -
  have t1: "active_tenant db_live ''t1'' = Some demo_tenant"
    by (simp add: active_tenant_def live_defs)
  have t2: "active_tenant db_full ''t1'' = Some demo_tenant"
    by (simp add: active_tenant_def db_full_def live_defs)
  have n1: "active_store_count db_live ''t1'' = 1"
    by (simp add: active_store_count_def live_defs)
  have n2: "active_store_count db_full ''t1'' = 2"
    by (simp add: active_store_count_def db_full_def live_defs)
  have m: "t_max_stores demo_tenant = 2" by (simp add: demo_tenant_def)
  have fresh: "\<forall>s \<in> set (stores db_live). \<not> (s_tenant_id s = ''t1'' \<and> s_store_id s = sc_store_id new_store)"
    by (simp add: new_store_def live_defs)
  note live = store_limit[OF t1, of new_store]
  note full = store_limit[OF t2, of new_store]
  have v1: "validate_store_limit db_live ''t1'' = Inr ()"
    using live n1 m by simp
  have v2: "validate_store_limit db_full ''t1'' =
      Inl (HTTPException 429 ''Store limit exceeded: 2/2'')"
    using full n2 m str_int_2 by simp
  have at_limit: "active_store_count db_full ''t1'' \<ge> t_max_stores demo_tenant"
    using n2 m by simp
  with full have "create_store db_full ''t1'' new_store =
      (Inl (HTTPException 409
         (''Store limit reached: '' @ str_int (active_store_count db_full ''t1'') @ ''/''
            @ str_int (t_max_stores demo_tenant))), db_full)"
    by blast
  then have c2: "fst (create_store db_full ''t1'' new_store) =
      Inl (HTTPException 409 ''Store limit reached: 2/2'')"
    using n2 m str_int_2 by simp
  have below: "active_store_count db_live ''t1'' = t_max_stores demo_tenant - 1 \<and>
      (\<forall>s \<in> set (stores db_live).
         \<not> (s_tenant_id s = ''t1'' \<and> s_store_id s = sc_store_id new_store))"
    using n1 m fresh by simp
  with live have cs: "create_store db_live ''t1'' new_store =
            (Inr \<lparr>s_tenant_id = ''t1'', s_store_id = sc_store_id new_store,
                  s_store_name = sc_store_name new_store, s_is_active = True\<rparr>,
             db_live\<lparr>stores := stores db_live @
                  [\<lparr>s_tenant_id = ''t1'', s_store_id = sc_store_id new_store,
                    s_store_name = sc_store_name new_store, s_is_active = True\<rparr>]\<rparr>) \<and>
          active_store_count (snd (create_store db_live ''t1'' new_store)) ''t1'' =
            t_max_stores demo_tenant"
    by blast
  have c1: "fst (create_store db_live ''t1'' new_store) =
       Inr \<lparr>s_tenant_id = ''t1'', s_store_id = ''s3'', s_store_name = ''South'',
            s_is_active = True\<rparr>"
    using cs[THEN conjunct1] by (simp add: new_store_def)
  from cs[THEN conjunct2] have c3: "active_store_count (snd (create_store db_live ''t1'' new_store)) ''t1'' = 2"
    by (simp only: m)
  from t1 t2 v1 v2 c1 c2 c3 show ?thesis by blast
qed

section \<open>The request pipeline after resolution\<close>

text \<open>What \<open>__call__\<close> answers once an exception reaches its handlers.\<close>

lemma on_exception_fst:
  "fst (on_exception env e st) =
     (case e of
        HTTPException code detail \<Rightarrow> Inl e
      | _ \<Rightarrow> (case e_logger env ERROR (''Tenant middleware error: '' @ exn_message e) of
                None \<Rightarrow> Inr \<lparr>status_code = 500, content = ''Internal server error''\<rparr>
              | Some e' \<Rightarrow> Inl e'))"
  by (simp add: on_exception_def emit_def split: exn.splits option.splits)

text \<open>A failed store-limit check of the deferred task ends in a warning in the log.\<close>

lemma store_limit_failure_logged:
  assumes "e_import_limits env = None" and "validate_store_limit db tenant_id = Inl e"
    and "e_logger env WARNING
           (''Tenant limits validation failed for '' @ tenant_id @ '': '' @ exn_message e) = None"
  shows "validate_tenant_limits env db tenant_id log =
     (None, log @ [\<lparr>le_level = WARNING,
        le_message = ''Tenant limits validation failed for '' @ tenant_id @ '': ''
                       @ exn_message e,
        le_extra = []\<rparr>])"
  using assms by (simp add: validate_tenant_limits_def limits_failed_def emit_def)

text \<open>
  C6, as stated, fails: the claim has a failure of the activity-recording step leave
  the response untouched.  The handler answers 200 for the request of \<open>demo_key\<close>;
  with a logging configuration that raises on the \<open>INFO\<close> record, the pipeline
  answers 500 instead.
\<close>

theorem activity_log_failure_replaces_response:
  "e_call_next demo_env_log_fails
     (demo_request\<lparr>r_state_tenant_id := Some ''t1'', r_state_store_id := Some ''s1''\<rparr>) =
     Inr \<lparr>status_code = 200, content = ''ok''\<rparr>
   \<and> fst (call demo_env demo_state demo_request) = Inr \<lparr>status_code = 200, content = ''ok''\<rparr>
   \<and> fst (call demo_env_log_fails demo_state demo_request) =
       Inr \<lparr>status_code = 500, content = ''Internal server error''\<rparr>"
  by (simp add: call_def extract_tenant_context_def lookup_api_key_def key_tenant_join_def
      update_last_used_at_def executed_def truthy_def fetchone_def Let_def
      log_tenant_activity_def emit_def on_exception_def
      demo_env_log_fails_def demo_env_def demo_state_def demo_request_def demo_handler_def
      quiet_logger_def info_fails_logger_def init_middleware_def live_defs)

text \<open>
  C6, amended.  For every request that reaches handler execution and whose handler
  returns a response: the outcome of the deferred quota check (the import, the
  store-limit check, the cost-limit check) never changes what the pipeline answers;
  the answer is the handler's response exactly when the activity record is logged;
  when logging it raises, an \<open>HTTPException\<close> propagates to the caller and any other
  exception is logged as an error and answered with the generic 500 response (or, if
  that error log raises too, propagates).
\<close>

theorem post_handler_failures:
  assumes "r_path req \<notin> set [''/health'', ''/docs'', ''/openapi.json'']"
    and "extract_tenant_context (e_sha256 env) (e_now env) (e_db_now env) (e_now_store env)
           (st_middleware st) (st_database st) req = (Inr (Some tenant_id, store_id), mw, db)"
    and "tenant_id \<noteq> []"
    and "e_call_next env
           (req\<lparr>r_state_tenant_id := Some tenant_id, r_state_store_id := store_id\<rparr>) = Inr resp"
  shows "fst (call env st req) =
     (case e_logger env INFO ''Tenant activity'' of
        None \<Rightarrow> Inr resp
      | Some (HTTPException code detail) \<Rightarrow> Inl (HTTPException code detail)
      | Some e \<Rightarrow>
          (case e_logger env ERROR (''Tenant middleware error: '' @ exn_message e) of
             None \<Rightarrow> Inr \<lparr>status_code = 500, content = ''Internal server error''\<rparr>
           | Some e' \<Rightarrow> Inl e'))
     \<and> (\<forall>i c. fst (call (env\<lparr>e_import_limits := i, e_check_cost_limit := c\<rparr>) st req) =
                fst (call env st req))"
proof
  show "fst (call env st req) =
     (case e_logger env INFO ''Tenant activity'' of
        None \<Rightarrow> Inr resp
      | Some (HTTPException code detail) \<Rightarrow> Inl (HTTPException code detail)
      | Some e \<Rightarrow>
          (case e_logger env ERROR (''Tenant middleware error: '' @ exn_message e) of
             None \<Rightarrow> Inr \<lparr>status_code = 500, content = ''Internal server error''\<rparr>
           | Some e' \<Rightarrow> Inl e'))"
    using assms
    by (simp add: call_def Let_def log_tenant_activity_def emit_def on_exception_fst
        split: option.splits exn.splits)
  show "\<forall>i c. fst (call (env\<lparr>e_import_limits := i, e_check_cost_limit := c\<rparr>) st req) =
               fst (call env st req)"
    by (simp add: call_def Let_def log_tenant_activity_def emit_def on_exception_fst
        split: option.splits exn.splits prod.splits sum.splits)
qed

theorem post_handler_failures_witness:
  "r_path demo_request \<notin> set [''/health'', ''/docs'', ''/openapi.json'']
   \<and> e_logger demo_env_log_fails INFO ''Tenant activity'' = Some (RuntimeError ''log sink closed'')
   \<and> e_call_next demo_env_log_fails
        (demo_request\<lparr>r_state_tenant_id := Some ''t1'', r_state_store_id := Some ''s1''\<rparr>) =
        Inr \<lparr>status_code = 200, content = ''ok''\<rparr>
   \<and> fst (call demo_env_log_fails demo_state demo_request) =
        Inr \<lparr>status_code = 500, content = ''Internal server error''\<rparr>
   \<and> fst (call (demo_env_log_fails\<lparr>e_import_limits := Some (RuntimeError ''no module''),
                                    e_check_cost_limit := quiet_logger WARNING\<rparr>)
             demo_state demo_request) =
        Inr \<lparr>status_code = 500, content = ''Internal server error''\<rparr>"
proof -
  have p: "r_path demo_request \<notin> set [''/health'', ''/docs'', ''/openapi.json'']"
    by (simp add: demo_request_def)
  have "\<exists>mw db. extract_tenant_context (e_sha256 demo_env_log_fails)
           (e_now demo_env_log_fails) (e_db_now demo_env_log_fails)
           (e_now_store demo_env_log_fails)
           (st_middleware demo_state) (st_database demo_state) demo_request =
           (Inr (Some ''t1'', Some ''s1''), mw, db)"
    by (simp add: extract_tenant_context_def lookup_api_key_def key_tenant_join_def
        update_last_used_at_def truthy_def fetchone_def Let_def
        demo_env_log_fails_def demo_env_def demo_state_def demo_request_def
        init_middleware_def live_defs)
  then obtain mw db where x: "extract_tenant_context (e_sha256 demo_env_log_fails)
           (e_now demo_env_log_fails) (e_db_now demo_env_log_fails)
           (e_now_store demo_env_log_fails)
           (st_middleware demo_state) (st_database demo_state) demo_request = (Inr (Some ''t1'', Some ''s1''), mw, db)"
    by blast
  have n: "''t1'' \<noteq> []" by simp
  have h: "e_call_next demo_env_log_fails
        (demo_request\<lparr>r_state_tenant_id := Some ''t1'', r_state_store_id := Some ''s1''\<rparr>) =
        Inr \<lparr>status_code = 200, content = ''ok''\<rparr>"
    by (simp add: demo_env_log_fails_def demo_env_def demo_handler_def)
  have li: "e_logger demo_env_log_fails INFO ''Tenant activity'' =
      Some (RuntimeError ''log sink closed'')"
    by (simp add: demo_env_log_fails_def demo_env_def info_fails_logger_def)
  have le: "e_logger demo_env_log_fails ERROR msg = None" for msg
    by (simp add: demo_env_log_fails_def demo_env_def info_fails_logger_def)
  note t = post_handler_failures[OF p x n h]
  have r: "fst (call demo_env_log_fails demo_state demo_request) =
        Inr \<lparr>status_code = 500, content = ''Internal server error''\<rparr>"
    using t[THEN conjunct1] by (simp add: li le)
  from t[THEN conjunct2] have "fst (call (demo_env_log_fails\<lparr>e_import_limits :=
        Some (RuntimeError ''no module''), e_check_cost_limit := quiet_logger WARNING\<rparr>)
        demo_state demo_request) = fst (call demo_env_log_fails demo_state demo_request)"
    by blast
  with p li h r show ?thesis by simp
qed

end
